theory Spec2Isabelle
  imports Main "HOL-Library.AList"
begin

section \<open>UserScriptSettings: the setting registry and value store\<close>

text \<open>
  A shallow embedding of the class \<open>UserScriptSettings\<close> (settings.ts): the definition
  registry, the value store, change notification and the load/save cycle on
  \<open>localStorage\<close>.

  Conventions of the model.
  \<^item> A value of the API is \<open>string | number | boolean\<close> (type \<open>jsval\<close>). A number is
    an integer, NaN, Infinity or -Infinity; fractions and the negative zero are not
    modelled.
  \<^item> What the value store holds is typed \<open>SettingValue\<close> in the source, but
    \<open>loadSettings\<close> copies whatever the stored text parses to. The entries of the value
    store, the values read back from them and the parsed text are therefore values of
    any shape (type \<open>jsany\<close>): undefined, null, a string, number or boolean, an array, or
    an object given by its own properties in order.
  \<^item> A JavaScript \<open>Map\<close> is an association list with \<open>AList.update\<close> as \<open>set\<close>
    (an existing key keeps its position, a new key goes to the end: the iteration order
    of a \<open>Map\<close>) and \<open>map_of\<close> as \<open>get\<close>. A \<open>Set\<close> of callbacks is a
    duplicate-free list in insertion order.
  \<^item> Objects that the caller and the store share by reference (setting definitions) live
    in an explicit heap; the store keeps their addresses. The plain objects that
    \<open>getAllSettings\<close> returns live in a second heap, one new address per call.
  \<^item> A callback is a reference. Its body belongs to the caller: the environment says
    which callback throws on which arguments and contents of the value store; an
    invocation is recorded in a trace of observable effects. Callbacks do not call back
    into the store.
  \<^item> A thrown \<open>Error\<close> is a value of type \<open>error\<close>, named after the place that
    throws it; a method returns the state it leaves behind together with the error, if
    any.
  \<^item> An object lists its properties in the order in which they were added. JavaScript
    puts the properties whose names are array indices in front of the others; this
    reordering is not modelled. It touches only the order of the entries in the text
    written to storage and in the value store after loading, on which no method of the
    store depends. A parsed object has no two properties of the same name.
\<close>

subsection \<open>Values\<close>

datatype jsnum = Finite int | NaN | PosInfinity | NegInfinity

datatype jsval = JString string | JNumber jsnum | JBoolean bool

datatype jsany =
  Undefined
  | Null
  | Scalar jsval
  | Array "jsany list"
  | Object "(string \<times> jsany) list"

text \<open>The comparison \<open>a < b\<close> on numbers (\<open>a > b\<close> is \<open>b < a\<close>): false whenever NaN
  takes part.\<close>

fun js_less :: "jsnum \<Rightarrow> jsnum \<Rightarrow> bool" where
  "js_less (Finite a) (Finite b) = (a < b)"
| "js_less (Finite a) PosInfinity = True"
| "js_less NegInfinity (Finite b) = True"
| "js_less NegInfinity PosInfinity = True"
| "js_less a b = False"

text \<open>Strict equality \<open>===\<close> on strings, numbers and booleans: NaN equals nothing.\<close>

definition strict_equal :: "jsval \<Rightarrow> jsval \<Rightarrow> bool" where
  "strict_equal a b \<longleftrightarrow> a = b \<and> a \<noteq> JNumber NaN"

text \<open>Truthiness, as tested by \<open>!x\<close> and \<open>x && y\<close>.\<close>

fun truthy :: "jsany \<Rightarrow> bool" where
  "truthy Undefined = False"
| "truthy Null = False"
| "truthy (Scalar (JBoolean b)) = b"
| "truthy (Scalar (JNumber n)) = (n \<noteq> Finite 0 \<and> n \<noteq> NaN)"
| "truthy (Scalar (JString s)) = (s \<noteq> [])"
| "truthy (Array xs) = True"
| "truthy (Object fs) = True"

text \<open>Reading one of the properties \<open>value\<close>, \<open>isDefault\<close>, \<open>version\<close> and
  \<open>settings\<close>: an object gives its own property or undefined, and strings, numbers,
  booleans and arrays have no property of these names. \<open>property\<close> is the read
  \<open>x?.name\<close>, which is undefined on null and undefined; \<open>get_property\<close> is the read
  \<open>x.name\<close>, a TypeError (\<open>None\<close>) on null and undefined.\<close>

fun property :: "jsany \<Rightarrow> string \<Rightarrow> jsany" where
  "property (Object fs) name = (case map_of fs name of None \<Rightarrow> Undefined | Some v \<Rightarrow> v)"
| "property x name = Undefined"

definition get_property :: "jsany \<Rightarrow> string \<Rightarrow> jsany option" where
  "get_property x name = (if x = Null \<or> x = Undefined then None else Some (property x name))"

subsection \<open>Data model\<close>

datatype SettingType =
  DROPDOWN | RADIO | CHECKBOX | NUMBER | TEXT | COLOR | SLIDER | CUSTOM

record choice =
  choice_value :: jsval
  choice_label :: string

record number_options =
  number_min :: "jsnum option"
  number_max :: "jsnum option"
  number_step :: "jsnum option"

record text_options =
  text_multiline :: "bool option"
  text_maxLength :: "jsnum option"
  text_placeholder :: "string option"

record slider_options =
  slider_min :: jsnum
  slider_max :: jsnum
  slider_step :: "jsnum option"
  slider_showValue :: "bool option"

datatype color_format = Hex | Rgb | Hsl

text \<open>\<open>SettingOptions\<close>: each type-specific member is optional. A \<open>dropdown\<close> or
  \<open>radio\<close> member is its \<open>choices\<close> array, a \<open>checkbox\<close> member its label, a
  \<open>color\<close> member its optional format.\<close>

record SettingOptions =
  opt_label :: "string option"
  opt_placeholder :: "string option"
  opt_disabled :: "bool option"
  opt_dropdown :: "choice list option"
  opt_radio :: "choice list option"
  opt_checkbox :: "string option"
  opt_number :: "number_options option"
  opt_text :: "text_options option"
  opt_color :: "color_format option option"
  opt_slider :: "slider_options option"

record SettingUIConfig =
  ui_tab :: string
  ui_order :: "jsnum option"
  ui_group :: "string option"
  ui_groupOrder :: "jsnum option"
  ui_hidden :: "bool option"
  ui_advanced :: "bool option"

record SettingDefinition =
  key :: string
  defaultValue :: jsval
  description :: "string option"
  validator :: "(jsval \<Rightarrow> bool) option"
  setting_type :: SettingType
  options :: "SettingOptions option"
  ui :: "SettingUIConfig option"

text \<open>A \<open>SettingValue\<close> as the store makes it, and the object \<open>{value, isDefault}\<close>
  that it is in the value store.\<close>

record SettingValue =
  sv_value :: jsval
  sv_isDefault :: bool

definition object_of :: "SettingValue \<Rightarrow> jsany" where
  "object_of sv =
     Object [(''value'', Scalar (sv_value sv)), (''isDefault'', Scalar (JBoolean (sv_isDefault sv)))]"

text \<open>The text held by \<open>localStorage\<close> under a key, classified by what \<open>loadSettings\<close>
  makes of it: the empty string (falsy, so treated like a missing item), a text on which
  \<open>JSON.parse\<close> throws, or a text that parses, with the value it parses to.\<close>

datatype stored_text = EmptyText | Unparsable | ParsesTo jsany

datatype reason =
  ChoicesMissing | DefaultNotAChoice | NotNumeric | BelowMin | AboveMax
  | SliderOptionsMissing | OutOfSliderRange | NotAString | ExceedsMaxLength | NotABoolean

text \<open>The source throws plain \<open>Error\<close> objects; the constructors name the places:
  \<open>validateSettingDefinition\<close> (with the key and the reason of the message),
  the \<open>Setting "key" not found\<close> checks, and \<open>getInstance\<close>. \<open>CallbackError\<close> is
  whatever a callback throws, with the callback that threw it.\<close>

datatype error =
  DefinitionError string reason
  | NotFoundError string
  | NotInitializedError
  | CallbackError nat

text \<open>Effects visible outside the store, in the order they happen: a report to
  \<open>console.error\<close>, a successful \<open>localStorage.setItem\<close> with the key and what the
  text written parses to, and the invocation of a callback with
  \<open>(newValue, oldValue)\<close>.\<close>

datatype event =
  ConsoleError string
  | SetItem string jsany
  | Callback nat jsval jsany

text \<open>An object returned by \<open>getAllSettings\<close>: its own properties, each the address of
  a definition, and its prototype when an assignment has replaced it.\<close>

record returned_object =
  prototype :: "nat option"
  own_entries :: "(string \<times> nat) list"

text \<open>The environment: the heap of definition objects, the heap of the objects
  returned by \<open>getAllSettings\<close> with the next free address, \<open>localStorage\<close> with its
  two failure modes (reading or writing throws, as with storage disabled or over quota),
  the behaviour of the callbacks (whether callback \<open>cb\<close> throws when called with a new
  and an old value while the value store has the given contents), and the trace.\<close>

record world =
  heap :: "nat \<Rightarrow> SettingDefinition"
  records :: "nat \<Rightarrow> returned_object"
  next_record :: nat
  localStorage :: "string \<Rightarrow> stored_text option"
  getItem_throws :: bool
  setItem_throws :: bool
  callback_throws :: "nat \<Rightarrow> jsval \<Rightarrow> jsany \<Rightarrow> (string \<times> jsany) list \<Rightarrow> bool"
  trace :: "event list"

text \<open>The fields of a \<open>UserScriptSettings\<close> object, on top of the environment.\<close>

record state = world +
  settings :: "(string \<times> jsany) list"
  changeCallbacks :: "(string \<times> nat list) list"
  storageKey :: string
  version :: string
  defaultSettings :: "(string \<times> jsval) list"
  settingDefinitions :: "(string \<times> nat) list"

subsection \<open>\<open>JSON.stringify\<close> and \<open>JSON.parse\<close>\<close>

definition digit_char :: "nat \<Rightarrow> char" where
  "digit_char n = ''0123456789abcdef'' ! (n mod 16)"

fun digits :: "nat \<Rightarrow> string" where
  "digits n = (if n < 10 then [digit_char n] else digits (n div 10) @ [digit_char (n mod 10)])"

declare digits.simps [simp del]

definition number_toString :: "int \<Rightarrow> string" where
  "number_toString n = (if n < 0 then CHR ''-'' # digits (nat (- n)) else digits (nat n))"

text \<open>The escapes of \<open>JSON.stringify\<close>: the quotation mark, the backslash, the five
  short escapes, and \<open>\u00XX\<close> for the other control characters.\<close>

definition escape_char :: "char \<Rightarrow> string" where
  "escape_char c =
     (if c = CHR 0x22 then [CHR 0x5C, CHR 0x22]
      else if c = CHR 0x5C then [CHR 0x5C, CHR 0x5C]
      else if c = CHR 0x08 then [CHR 0x5C, CHR ''b'']
      else if c = CHR 0x0C then [CHR 0x5C, CHR ''f'']
      else if c = CHR 0x0A then [CHR 0x5C, CHR ''n'']
      else if c = CHR 0x0D then [CHR 0x5C, CHR ''r'']
      else if c = CHR 0x09 then [CHR 0x5C, CHR ''t'']
      else if (of_char c :: nat) < 32
        then [CHR 0x5C, CHR ''u'', CHR ''0'', CHR ''0'',
              digit_char (of_char c div 16), digit_char (of_char c mod 16)]
      else [c])"

definition quote :: "string \<Rightarrow> string" where
  "quote s = CHR 0x22 # concat (map escape_char s) @ [CHR 0x22]"

text \<open>\<open>JSON.stringify\<close> on a string, number or boolean, as \<open>setSetting\<close> uses it:
  \<open>JSON.stringify(undefined)\<close> is \<open>undefined\<close> (\<open>None\<close> on both sides), and NaN,
  Infinity and -Infinity all print as \<open>null\<close>.\<close>

fun JSON_stringify :: "jsval option \<Rightarrow> string option" where
  "JSON_stringify None = None"
| "JSON_stringify (Some (JString s)) = Some (quote s)"
| "JSON_stringify (Some (JNumber (Finite n))) = Some (number_toString n)"
| "JSON_stringify (Some (JNumber n)) = Some ''null''"
| "JSON_stringify (Some (JBoolean b)) = Some (if b then ''true'' else ''false'')"

text \<open>What a value is after \<open>JSON.stringify\<close> and \<open>JSON.parse\<close>: a number that is not
  finite comes back as null, a property whose value is undefined is dropped, an undefined
  array element comes back as null.\<close>

primrec json_round_trip :: "jsany \<Rightarrow> jsany" where
  "json_round_trip Undefined = Undefined"
| "json_round_trip Null = Null"
| "json_round_trip (Scalar v) =
     (case v of
        JNumber n \<Rightarrow> (case n of Finite i \<Rightarrow> Scalar v | _ \<Rightarrow> Null)
      | _ \<Rightarrow> Scalar v)"
| "json_round_trip (Array xs) =
     Array (map (\<lambda>x. if x = Undefined then Null else x) (map json_round_trip xs))"
| "json_round_trip (Object fs) =
     Object (filter (\<lambda>p. snd p \<noteq> Undefined) (map (map_prod id json_round_trip) fs))"

text \<open>\<open>Object.entries\<close>: a TypeError (\<open>None\<close>) on null and undefined, the own
  properties of an object, the indexed elements of an array, the indexed characters of
  a string, nothing for a number or a boolean.\<close>

definition indexed :: "'a list \<Rightarrow> (string \<times> 'a) list" where
  "indexed xs = zip (map digits [0..<length xs]) xs"

fun object_entries :: "jsany \<Rightarrow> (string \<times> jsany) list option" where
  "object_entries Undefined = None"
| "object_entries Null = None"
| "object_entries (Object fs) = Some fs"
| "object_entries (Array xs) = Some (indexed xs)"
| "object_entries (Scalar (JString s)) = Some (indexed (map (\<lambda>c. Scalar (JString [c])) s))"
| "object_entries (Scalar v) = Some []"

subsection \<open>Definition registry\<close>

text \<open>Optional chaining: \<open>optional x f\<close> is \<open>x?.f\<close>.\<close>

definition optional :: "'a option \<Rightarrow> ('a \<Rightarrow> 'b option) \<Rightarrow> 'b option" where
  "optional x f = (case x of None \<Rightarrow> None | Some y \<Rightarrow> f y)"

text \<open>\<open>validateSettingDefinition\<close>: the \<open>switch\<close> on the type, one case per
  branch, each \<open>throw\<close> an error value; \<open>None\<close> is the normal return. The type
  \<open>custom\<close> has no case. The \<open>maxLength\<close> test is guarded by the truthiness of
  \<open>maxLength\<close>, so a limit of 0 or NaN is no limit. The field \<open>validator\<close> is not
  read.\<close>

definition validateSettingDefinition :: "SettingDefinition \<Rightarrow> error option" where
  "validateSettingDefinition def =
     (case setting_type def of
        DROPDOWN \<Rightarrow>
          (case optional (options def) opt_dropdown of
             None \<Rightarrow> Some (DefinitionError (key def) ChoicesMissing)
           | Some choices \<Rightarrow>
               if \<not> list_ex (\<lambda>c. strict_equal (choice_value c) (defaultValue def)) choices
               then Some (DefinitionError (key def) DefaultNotAChoice) else None)
      | RADIO \<Rightarrow>
          (case optional (options def) opt_radio of
             None \<Rightarrow> Some (DefinitionError (key def) ChoicesMissing)
           | Some choices \<Rightarrow>
               if \<not> list_ex (\<lambda>c. strict_equal (choice_value c) (defaultValue def)) choices
               then Some (DefinitionError (key def) DefaultNotAChoice) else None)
      | NUMBER \<Rightarrow>
          (case defaultValue def of
             JNumber n \<Rightarrow>
               (case optional (options def) opt_number of
                  None \<Rightarrow> None
                | Some num \<Rightarrow>
                    if (case number_min num of None \<Rightarrow> False | Some m \<Rightarrow> js_less n m)
                    then Some (DefinitionError (key def) BelowMin)
                    else if (case number_max num of None \<Rightarrow> False | Some m \<Rightarrow> js_less m n)
                    then Some (DefinitionError (key def) AboveMax)
                    else None)
           | _ \<Rightarrow> Some (DefinitionError (key def) NotNumeric))
      | SLIDER \<Rightarrow>
          (case defaultValue def of
             JNumber n \<Rightarrow>
               (case optional (options def) opt_slider of
                  None \<Rightarrow> Some (DefinitionError (key def) SliderOptionsMissing)
                | Some sl \<Rightarrow>
                    if js_less n (slider_min sl) \<or> js_less (slider_max sl) n
                    then Some (DefinitionError (key def) OutOfSliderRange)
                    else None)
           | _ \<Rightarrow> Some (DefinitionError (key def) NotNumeric))
      | COLOR \<Rightarrow>
          (case defaultValue def of
             JString s \<Rightarrow> None
           | _ \<Rightarrow> Some (DefinitionError (key def) NotAString))
      | TEXT \<Rightarrow>
          (case defaultValue def of
             JString s \<Rightarrow>
               (case optional (optional (options def) opt_text) text_maxLength of
                  None \<Rightarrow> None
                | Some m \<Rightarrow>
                    if truthy (Scalar (JNumber m)) \<and> js_less m (Finite (int (length s)))
                    then Some (DefinitionError (key def) ExceedsMaxLength)
                    else None)
           | _ \<Rightarrow> Some (DefinitionError (key def) NotAString))
      | CHECKBOX \<Rightarrow>
          (case defaultValue def of
             JBoolean b \<Rightarrow> None
           | _ \<Rightarrow> Some (DefinitionError (key def) NotABoolean))
      | CUSTOM \<Rightarrow> None)"

text \<open>\<open>defineSetting(definition)\<close>: the argument is the address of the caller's
  definition object. The default value, a primitive, is copied into
  \<open>defaultSettings\<close>; the object itself is stored by reference. The value is seeded
  unless the value store \<open>has\<close> the key, whatever it holds for it.\<close>

definition defineSetting :: "nat \<Rightarrow> state \<Rightarrow> state \<times> error option" where
  "defineSetting r s =
     (let def = heap s r in
      case validateSettingDefinition def of
        Some e \<Rightarrow> (s, Some e)
      | None \<Rightarrow>
          (let s1 = s\<lparr>defaultSettings := AList.update (key def) (defaultValue def) (defaultSettings s)\<rparr>;
               s2 = s1\<lparr>settingDefinitions := AList.update (key def) r (settingDefinitions s1)\<rparr>
           in if map_of (settings s2) (key def) = None
              then (s2\<lparr>settings := AList.update (key def)
                         (object_of \<lparr>sv_value = defaultValue def, sv_isDefault = True\<rparr>)
                         (settings s2)\<rparr>, None)
              else (s2, None)))"

subsection \<open>Value store\<close>

text \<open>\<open>getSetting\<close>: the entry is tested for truthiness, so a falsy entry is
  \<open>not found\<close> like a missing one; the result is the property \<open>value\<close> of the
  entry.\<close>

definition getSetting :: "string \<Rightarrow> state \<Rightarrow> error + jsany" where
  "getSetting k s =
     (case map_of (settings s) k of
        None \<Rightarrow> Inl (NotFoundError k)
      | Some setting \<Rightarrow>
          if \<not> truthy setting then Inl (NotFoundError k) else Inr (property setting ''value''))"

text \<open>\<open>isDefault\<close>: \<open>setting?.isDefault ?? true\<close>.\<close>

definition isDefault :: "string \<Rightarrow> state \<Rightarrow> jsany" where
  "isDefault k s =
     (case map_of (settings s) k of
        None \<Rightarrow> Scalar (JBoolean True)
      | Some setting \<Rightarrow>
          (let flag = property setting ''isDefault''
           in if flag = Undefined \<or> flag = Null then Scalar (JBoolean True) else flag))"

text \<open>\<open>saveSettings\<close>: the data is \<open>{version, settings}\<close> with the entries of the
  value store; storage then holds its JSON text. A failing \<open>setItem\<close> is caught and
  reported to the console.\<close>

definition saveSettings :: "state \<Rightarrow> state" where
  "saveSettings s =
     (let data = Object [(''version'', Scalar (JString (version s))),
                         (''settings'', Object (settings s))]
      in if setItem_throws s
         then s\<lparr>trace := trace s @ [ConsoleError ''Error saving settings:'']\<rparr>
         else s\<lparr>localStorage := (localStorage s)(storageKey s \<mapsto> ParsesTo (json_round_trip data)),
                trace := trace s @ [SetItem (storageKey s) (json_round_trip data)]\<rparr>)"

text \<open>\<open>callbacks.forEach(callback => callback(value, oldSetting.value))\<close>: there is
  no \<open>try\<close> around the call, so the first callback that throws ends the loop and its
  exception leaves \<open>setSetting\<close>.\<close>

fun forEach_callback :: "nat list \<Rightarrow> jsval \<Rightarrow> jsany \<Rightarrow> state \<Rightarrow> state \<times> error option" where
  "forEach_callback [] v old s = (s, None)"
| "forEach_callback (cb # cbs) v old s =
     (let s' = s\<lparr>trace := trace s @ [Callback cb v old]\<rparr>
      in if callback_throws s cb v old (settings s) then (s', Some (CallbackError cb))
         else forEach_callback cbs v old s')"

definition setSetting :: "string \<Rightarrow> jsval \<Rightarrow> state \<Rightarrow> state \<times> error option" where
  "setSetting k v s =
     (case map_of (settings s) k of
        None \<Rightarrow> (s, Some (NotFoundError k))
      | Some oldSetting \<Rightarrow>
          if \<not> truthy oldSetting then (s, Some (NotFoundError k))
          else
            (let dflt = map_of (defaultSettings s) k;
                 newSetting = object_of \<lparr>sv_value = v,
                   sv_isDefault = (JSON_stringify (Some v) = JSON_stringify dflt)\<rparr>;
                 s1 = s\<lparr>settings := AList.update k newSetting (settings s)\<rparr>;
                 s2 = saveSettings s1
             in case map_of (changeCallbacks s2) k of
                  None \<Rightarrow> (s2, None)
                | Some callbacks \<Rightarrow> forEach_callback callbacks v (property oldSetting ''value'') s2))"

definition resetToDefault :: "string \<Rightarrow> state \<Rightarrow> state \<times> error option" where
  "resetToDefault k s =
     (case map_of (defaultSettings s) k of
        None \<Rightarrow> (s, Some (NotFoundError k))
      | Some dflt \<Rightarrow> setSetting k dflt s)"

text \<open>\<open>defaultSettings.forEach\<close> with \<open>setSetting\<close> as its body: an exception leaves
  the loop with the state reached so far.\<close>

fun forEach_setSetting :: "(string \<times> jsval) list \<Rightarrow> state \<Rightarrow> state \<times> error option" where
  "forEach_setSetting [] s = (s, None)"
| "forEach_setSetting ((k, dflt) # rest) s =
     (case setSetting k dflt s of
        (s', Some e) \<Rightarrow> (s', Some e)
      | (s', None) \<Rightarrow> forEach_setSetting rest s')"

definition resetAllToDefaults :: "state \<Rightarrow> state \<times> error option" where
  "resetAllToDefaults s = forEach_setSetting (defaultSettings s) s"

subsection \<open>Change notification\<close>

definition set_add :: "'a \<Rightarrow> 'a list \<Rightarrow> 'a list" where
  "set_add x xs = (if x \<in> set xs then xs else xs @ [x])"

definition onSettingChange :: "string \<Rightarrow> nat \<Rightarrow> state \<Rightarrow> state" where
  "onSettingChange k cb s =
     (let cbs = (case map_of (changeCallbacks s) k of None \<Rightarrow> [] | Some xs \<Rightarrow> xs)
      in s\<lparr>changeCallbacks := AList.update k (set_add cb cbs) (changeCallbacks s)\<rparr>)"

definition removeSettingChangeListener :: "string \<Rightarrow> nat \<Rightarrow> state \<Rightarrow> state" where
  "removeSettingChangeListener k cb s =
     (case map_of (changeCallbacks s) k of
        None \<Rightarrow> s
      | Some cbs \<Rightarrow> s\<lparr>changeCallbacks := AList.update k (removeAll cb cbs) (changeCallbacks s)\<rparr>)"



text \<open>\<open>getAllSettings\<close> fills a new object from the entries of \<open>settingDefinitions\<close>
  by \<open>result[key] = definition\<close>: the assignment gives the object the own property
  \<open>key\<close> holding the address of the registered definition object, except for the key
  \<open>__proto__\<close>, where it makes the definition the prototype of the object and adds no
  property. The address of the new object is returned.\<close>

definition assign_entry :: "string \<times> nat \<Rightarrow> returned_object \<Rightarrow> returned_object" where
  "assign_entry p result =
     (if fst p = ''__proto__'' then result\<lparr>prototype := Some (snd p)\<rparr>
      else result\<lparr>own_entries := AList.update (fst p) (snd p) (own_entries result)\<rparr>)"

definition getAllSettings :: "state \<Rightarrow> state \<times> nat" where
  "getAllSettings s =
     (let result = fold assign_entry (settingDefinitions s) \<lparr>prototype = None, own_entries = []\<rparr>;
          a = next_record s
      in (s\<lparr>records := (records s)(a := result), next_record := Suc a\<rparr>, a))"

subsection \<open>Persistence and construction\<close>

definition load_failed :: "state \<Rightarrow> state \<times> error option" where
  "load_failed s =
     resetAllToDefaults (s\<lparr>trace := trace s @ [ConsoleError ''Error loading settings:'']\<rparr>)"

text \<open>The version that a parsed text carries: its property \<open>version\<close>, or a TypeError
  (\<open>None\<close>) when the text is \<open>null\<close>.\<close>

definition stored_version :: "jsany \<Rightarrow> jsany option" where
  "stored_version data = get_property data ''version''"

text \<open>\<open>loadSettings\<close>: every exception inside the \<open>try\<close> ends in the \<open>catch\<close>
  (\<open>load_failed\<close>): \<open>getItem\<close> throwing, \<open>JSON.parse\<close> throwing, reading
  \<open>version\<close> off \<open>null\<close>, \<open>Object.entries\<close> of a missing \<open>settings\<close>, and an
  exception of \<open>resetAllToDefaults\<close>. A version other than the configured string is a
  mismatch. With the configured version, every entry is copied as it is.\<close>

definition loadSettings :: "state \<Rightarrow> state \<times> error option" where
  "loadSettings s =
     (if getItem_throws s then load_failed s
      else case localStorage s (storageKey s) of
        None \<Rightarrow> (s, None)
      | Some EmptyText \<Rightarrow> (s, None)
      | Some Unparsable \<Rightarrow> load_failed s
      | Some (ParsesTo data) \<Rightarrow>
          (case stored_version data of
             None \<Rightarrow> load_failed s
           | Some ver \<Rightarrow>
               if ver \<noteq> Scalar (JString (version s))
               then (case resetAllToDefaults s of
                       (s', None) \<Rightarrow> (s', None)
                     | (s', Some e) \<Rightarrow> load_failed s')
               else (case object_entries (property data ''settings'') of
                       None \<Rightarrow> load_failed s
                     | Some entries \<Rightarrow>
                         (fold (\<lambda>(k, v) s'. s'\<lparr>settings := AList.update k v (settings s')\<rparr>)
                            entries s, None))))"

definition new_UserScriptSettings :: "string \<Rightarrow> string \<Rightarrow> world \<Rightarrow> state \<times> error option" where
  "new_UserScriptSettings sk ver w =
     loadSettings
       \<lparr>heap = heap w, records = records w, next_record = next_record w,
        localStorage = localStorage w, getItem_throws = getItem_throws w,
        setItem_throws = setItem_throws w, callback_throws = callback_throws w,
        trace = trace w,
        settings = [], changeCallbacks = [], storageKey = sk, version = ver,
        defaultSettings = [], settingDefinitions = []\<rparr>"

text \<open>The static \<open>instance\<close>: before \<open>initialize\<close> only the environment exists.\<close>

datatype process = NotInitialized world | Initialized state

definition initialize :: "string \<Rightarrow> string \<Rightarrow> process \<Rightarrow> process \<times> error option" where
  "initialize sk ver p =
     (case p of
        Initialized s \<Rightarrow> (Initialized s, None)
      | NotInitialized w \<Rightarrow>
          (case new_UserScriptSettings sk ver w of
             (s, None) \<Rightarrow> (Initialized s, None)
           | (s, Some e) \<Rightarrow> (NotInitialized (world.truncate s), Some e)))"

definition getInstance :: "process \<Rightarrow> error + state" where
  "getInstance p =
     (case p of NotInitialized w \<Rightarrow> Inl NotInitializedError | Initialized s \<Rightarrow> Inr s)"

subsection \<open>Runs of the store\<close>

text \<open>The calls that change the state, and what the surrounding script can do to the
  environment between them: write to a definition object or to an object returned by
  \<open>getAllSettings\<close>, and storage starting or ceasing to reject writes. A call that
  throws leaves the state it reached; the script goes on.\<close>

datatype operation =
  DefineSetting nat
  | SetSetting string jsval
  | ResetToDefault string
  | ResetAllToDefaults
  | OnSettingChange string nat
  | RemoveSettingChangeListener string nat
  | GetAllSettings
  | CallerWritesDefinition nat SettingDefinition
  | CallerWritesRecord nat returned_object
  | StorageRejectsWrites bool

fun perform :: "operation \<Rightarrow> state \<Rightarrow> state" where
  "perform (DefineSetting r) s = fst (defineSetting r s)"
| "perform (SetSetting k v) s = fst (setSetting k v s)"
| "perform (ResetToDefault k) s = fst (resetToDefault k s)"
| "perform ResetAllToDefaults s = fst (resetAllToDefaults s)"
| "perform (OnSettingChange k cb) s = onSettingChange k cb s"
| "perform (RemoveSettingChangeListener k cb) s = removeSettingChangeListener k cb s"
| "perform GetAllSettings s = fst (getAllSettings s)"
| "perform (CallerWritesDefinition r def) s = s\<lparr>heap := (heap s)(r := def)\<rparr>"
| "perform (CallerWritesRecord a content) s = s\<lparr>records := (records s)(a := content)\<rparr>"
| "perform (StorageRejectsWrites b) s = s\<lparr>setItem_throws := b\<rparr>"

fun run :: "operation list \<Rightarrow> state \<Rightarrow> state" where
  "run [] s = s"
| "run (op # ops) s = run ops (perform op s)"

text \<open>The keys defined by the successful \<open>defineSetting\<close> calls of a run.\<close>

fun defined_keys :: "operation list \<Rightarrow> state \<Rightarrow> string set" where
  "defined_keys [] s = {}"
| "defined_keys (DefineSetting r # ops) s =
     (if validateSettingDefinition (heap s r) = None then {key (heap s r)} else {})
     \<union> defined_keys ops (perform (DefineSetting r) s)"
| "defined_keys (op # ops) s = defined_keys ops (perform op s)"

text \<open>The definition of a key in a run: the default value that the definition object
  had at the last successful \<open>defineSetting\<close> call for the key.\<close>

fun registered_default :: "operation list \<Rightarrow> state \<Rightarrow> string \<Rightarrow> jsval option" where
  "registered_default [] s k = None"
| "registered_default (DefineSetting r # ops) s k =
     (case registered_default ops (perform (DefineSetting r) s) k of
        Some d \<Rightarrow> Some d
      | None \<Rightarrow>
          if validateSettingDefinition (heap s r) = None \<and> key (heap s r) = k
          then Some (defaultValue (heap s r)) else None)"
| "registered_default (op # ops) s k = registered_default ops (perform op s) k"

text \<open>The definition object of a key in a run: the address passed to the last
  successful \<open>defineSetting\<close> call for the key.\<close>

fun registered_definition :: "operation list \<Rightarrow> state \<Rightarrow> string \<Rightarrow> nat option" where
  "registered_definition [] s k = None"
| "registered_definition (DefineSetting r # ops) s k =
     (case registered_definition ops (perform (DefineSetting r) s) k of
        Some a \<Rightarrow> Some a
      | None \<Rightarrow>
          if validateSettingDefinition (heap s r) = None \<and> key (heap s r) = k
          then Some r else None)"
| "registered_definition (op # ops) s k = registered_definition ops (perform op s) k"

text \<open>Registering a list of definitions, one \<open>defineSetting\<close> call each, in order;
  and the first definition in a list that is accepted for a key.\<close>

definition register :: "nat list \<Rightarrow> state \<Rightarrow> state" where
  "register rs s = run (map DefineSetting rs) s"

definition first_definition :: "(nat \<Rightarrow> SettingDefinition) \<Rightarrow> nat list \<Rightarrow> string \<Rightarrow> nat option" where
  "first_definition h rs k =
     find (\<lambda>r. validateSettingDefinition (h r) = None \<and> key (h r) = k) rs"

text \<open>The entries that construction copies from \<open>localStorage\<close>: those of a readable
  text with the configured version, in the order of copying; and what the value store
  holds for a key after copying them (a later entry of the same key replaces an earlier
  one).\<close>

definition snapshot_entries :: "string \<Rightarrow> string \<Rightarrow> world \<Rightarrow> (string \<times> jsany) list" where
  "snapshot_entries sk ver w =
     (if getItem_throws w then []
      else case localStorage w sk of
        Some (ParsesTo data) \<Rightarrow>
          if stored_version data = Some (Scalar (JString ver))
          then (case object_entries (property data ''settings'') of None \<Rightarrow> [] | Some entries \<Rightarrow> entries)
          else []
      | _ \<Rightarrow> [])"

definition snapshot_entry :: "string \<Rightarrow> string \<Rightarrow> world \<Rightarrow> string \<Rightarrow> jsany option" where
  "snapshot_entry sk ver w k = map_of (rev (snapshot_entries sk ver w)) k"

text \<open>A key is blocked when the snapshot copied at construction holds a falsy value for
  it: \<open>defineSetting\<close> does not seed over the entry and \<open>setSetting\<close> rejects it.\<close>

definition blocked :: "string \<Rightarrow> string \<Rightarrow> world \<Rightarrow> string \<Rightarrow> bool" where
  "blocked sk ver w k =
     (case snapshot_entry sk ver w k of None \<Rightarrow> False | Some e \<Rightarrow> \<not> truthy e)"

text \<open>The invariant of the store: every key of \<open>defaultSettings\<close> has an entry in
  \<open>settings\<close>.\<close>

definition store_inv :: "state \<Rightarrow> bool" where
  "store_inv s \<longleftrightarrow> fst ` set (defaultSettings s) \<subseteq> fst ` set (settings s)"

text \<open>A number that \<open>JSON.stringify\<close> prints as \<open>null\<close>.\<close>

definition prints_as_null :: "jsval \<Rightarrow> bool" where
  "prints_as_null v \<longleftrightarrow> v = JNumber NaN \<or> v = JNumber PosInfinity \<or> v = JNumber NegInfinity"

text \<open>A definition whose validator is replaced, the rest of the object kept.\<close>

definition with_validator :: "(jsval \<Rightarrow> bool) option \<Rightarrow> nat \<Rightarrow> state \<Rightarrow> state" where
  "with_validator f r s = s\<lparr>heap := (heap s)(r := (heap s r)\<lparr>validator := f\<rparr>)\<rparr>"

text \<open>What a caller reads through an object returned by \<open>getAllSettings\<close>: each own key
  with the definition found at the address stored for it.\<close>

definition read_record :: "state \<Rightarrow> nat \<Rightarrow> (string \<times> SettingDefinition) list" where
  "read_record s a = map (\<lambda>(k, r). (k, heap s r)) (own_entries (records s a))"

text \<open>The state apart from the objects handed out by \<open>getAllSettings\<close>.\<close>

definition without_records :: "state \<Rightarrow> state" where
  "without_records s = s\<lparr>records := (\<lambda>a. \<lparr>prototype = None, own_entries = []\<rparr>), next_record := 0\<rparr>"

subsection \<open>A demo script\<close>

text \<open>Definitions after those of the repository's demo: the \<open>theme\<close> dropdown, the
  \<open>autoSave\<close> checkbox and the \<open>refreshInterval\<close> slider, at the addresses 10, 20 and
  30 of the heap. Address 40 holds a second definition of \<open>theme\<close> whose default is
  \<open>dark\<close>, address 50 the \<open>autoSave\<close> definition with a validator that rejects every
  value, address 60 a number setting \<open>limit\<close> without options whose default is
  Infinity, address 70 the \<open>theme\<close> definition under the key \<open>__proto__\<close>.\<close>

definition no_options :: SettingOptions where
  "no_options =
     \<lparr>opt_label = None, opt_placeholder = None, opt_disabled = None, opt_dropdown = None,
      opt_radio = None, opt_checkbox = None, opt_number = None, opt_text = None,
      opt_color = None, opt_slider = None\<rparr>"

definition theme_choices :: "choice list" where
  "theme_choices =
     [\<lparr>choice_value = JString ''light'', choice_label = ''Light Theme''\<rparr>,
      \<lparr>choice_value = JString ''dark'', choice_label = ''Dark Theme''\<rparr>,
      \<lparr>choice_value = JString ''system'', choice_label = ''System Default''\<rparr>]"

definition theme_definition :: SettingDefinition where
  "theme_definition =
     \<lparr>key = ''theme'', defaultValue = JString ''light'',
      description = Some ''The theme to use for the UI'', validator = None,
      setting_type = DROPDOWN,
      options = Some (no_options\<lparr>opt_dropdown := Some theme_choices\<rparr>),
      ui = None\<rparr>"

definition autoSave_definition :: SettingDefinition where
  "autoSave_definition =
     \<lparr>key = ''autoSave'', defaultValue = JBoolean True,
      description = Some ''Whether to automatically save changes'', validator = None,
      setting_type = CHECKBOX,
      options = Some (no_options\<lparr>opt_checkbox := Some ''Enable Auto-Save''\<rparr>),
      ui = None\<rparr>"

definition refreshInterval_definition :: SettingDefinition where
  "refreshInterval_definition =
     \<lparr>key = ''refreshInterval'', defaultValue = JNumber (Finite 5000),
      description = Some ''How often to refresh data (in milliseconds)'', validator = None,
      setting_type = SLIDER,
      options = Some (no_options\<lparr>opt_slider := Some
        \<lparr>slider_min = Finite 1000, slider_max = Finite 30000, slider_step = Some (Finite 1000),
         slider_showValue = Some True\<rparr>\<rparr>),
      ui = None\<rparr>"

definition limit_definition :: SettingDefinition where
  "limit_definition =
     \<lparr>key = ''limit'', defaultValue = JNumber PosInfinity,
      description = None, validator = None, setting_type = NUMBER, options = None,
      ui = None\<rparr>"

definition reject_all :: "jsval \<Rightarrow> bool" where
  "reject_all v = False"

definition demo_heap :: "nat \<Rightarrow> SettingDefinition" where
  "demo_heap a =
     (if a = 20 then autoSave_definition
      else if a = 30 then refreshInterval_definition
      else if a = 40 then theme_definition\<lparr>defaultValue := JString ''dark''\<rparr>
      else if a = 50 then autoSave_definition\<lparr>validator := Some reject_all\<rparr>
      else if a = 60 then limit_definition
      else if a = 70 then theme_definition\<lparr>key := ''__proto__''\<rparr>
      else theme_definition)"

text \<open>The callbacks of the demo: callback 13 throws whenever it is called, the others
  return.\<close>

definition demo_callbacks :: "nat \<Rightarrow> jsval \<Rightarrow> jsany \<Rightarrow> (string \<times> jsany) list \<Rightarrow> bool" where
  "demo_callbacks cb v old store = (cb = 13)"

text \<open>A page with empty storage; a page whose storage holds a snapshot of version
  \<open>1.0.0\<close> under the key \<open>demo-settings\<close>, with \<open>theme\<close> at \<open>dark\<close>, flagged as
  default, and a key \<open>legacy\<close> that no definition of the script mentions; and a page
  whose snapshot of version \<open>1.0.0\<close> holds \<open>null\<close> for \<open>theme\<close>.\<close>

definition fresh_page :: world where
  "fresh_page =
     \<lparr>heap = demo_heap, records = (\<lambda>a. \<lparr>prototype = None, own_entries = []\<rparr>),
      next_record = 0, localStorage = Map.empty,
      getItem_throws = False, setItem_throws = False, callback_throws = demo_callbacks,
      trace = []\<rparr>"

definition demo_snapshot :: jsany where
  "demo_snapshot =
     Object [(''version'', Scalar (JString ''1.0.0'')),
             (''settings'', Object
                [(''theme'', object_of \<lparr>sv_value = JString ''dark'', sv_isDefault = True\<rparr>),
                 (''legacy'', object_of \<lparr>sv_value = JNumber (Finite 7), sv_isDefault = False\<rparr>)])]"

definition returning_page :: world where
  "returning_page = fresh_page\<lparr>localStorage := [''demo-settings'' \<mapsto> ParsesTo demo_snapshot]\<rparr>"

definition damaged_snapshot :: jsany where
  "damaged_snapshot =
     Object [(''version'', Scalar (JString ''1.0.0'')),
             (''settings'', Object [(''theme'', Null)])]"

definition damaged_page :: world where
  "damaged_page = fresh_page\<lparr>localStorage := [''demo-settings'' \<mapsto> ParsesTo damaged_snapshot]\<rparr>"

definition fresh_store :: state where
  "fresh_store = fst (new_UserScriptSettings ''demo-settings'' ''1.0.0'' fresh_page)"

definition returning_store :: state where
  "returning_store = fst (new_UserScriptSettings ''demo-settings'' ''1.0.0'' returning_page)"

definition upgraded_store :: state where
  "upgraded_store = fst (new_UserScriptSettings ''demo-settings'' ''2.0.0'' returning_page)"

definition damaged_store :: state where
  "damaged_store = fst (new_UserScriptSettings ''demo-settings'' ''1.0.0'' damaged_page)"

section \<open>Properties\<close>

subsection \<open>When two setting values have the same JSON text\<close>

lemma digit_char_inj: "a < 16 \<Longrightarrow> b < 16 \<Longrightarrow> digit_char a = digit_char b \<Longrightarrow> a = b"
proof -
  assume a: "a < 16" and b: "b < 16" and e: "digit_char a = digit_char b"
  have d: "distinct ''0123456789abcdef''" by simp
  have "''0123456789abcdef'' ! a = ''0123456789abcdef'' ! b" using e a b by (simp add: digit_char_def)
  then show "a = b" using nth_eq_iff_index_eq[OF d, of a b] a b by simp
qed

lemma digits_nonempty: "digits n \<noteq> []"
  by (subst digits.simps) simp

lemma digits_length1: "length (digits n) = 1 \<longleftrightarrow> n < 10"
  apply (subst digits.simps)
  apply (auto simp: digits_nonempty)
  done

lemma digits_inj: "digits n = digits m \<Longrightarrow> n = m"
proof (induction n arbitrary: m rule: digits.induct)
  case (1 n)
  show ?case
  proof (cases "n < 10")
    case True
    then have "length (digits m) = 1" using "1.prems" digits_length1[of n] by simp
    then have m: "m < 10" using digits_length1[of m] by simp
    have "digit_char n = digit_char m" using "1.prems" True m
      by (subst (asm) digits.simps, subst (asm) (2) digits.simps) simp
    then show ?thesis using digit_char_inj[of n m] True m by simp
  next
    case False
    then have "length (digits m) \<noteq> 1" using "1.prems" digits_length1[of n] by simp
    then have m: "\<not> m < 10" using digits_length1[of m] by simp
    have "digits (n div 10) @ [digit_char (n mod 10)] = digits (m div 10) @ [digit_char (m mod 10)]"
      using "1.prems" False m
      by (subst (asm) digits.simps, subst (asm) (2) digits.simps) simp
    then have a: "digits (n div 10) = digits (m div 10)" and b: "digit_char (n mod 10) = digit_char (m mod 10)"
      by simp_all
    have "n div 10 = m div 10" using "1.IH"[OF False a] .
    moreover have "n mod 10 = m mod 10" using digit_char_inj[OF _ _ b] by simp
    ultimately show ?thesis by (metis div_mult_mod_eq)
  qed
qed

lemma digits_hd_digit: "hd (digits n) \<in> set ''0123456789''"
proof (induction n rule: digits.induct)
  case (1 n)
  show ?case
  proof (cases "n < 10")
    case True
    have "n mod 16 = n" using True by simp
    moreover have "n \<in> {0,1,2,3,4,5,6,7,8,9}" using True by auto
    ultimately show ?thesis
      by (subst digits.simps) (auto simp: digit_char_def True)
  next
    case False
    then show ?thesis using "1.IH" digits_nonempty[of "n div 10"]
      by (subst digits.simps) (simp add: hd_append)
  qed
qed

lemma number_toString_inj: "number_toString n = number_toString m \<Longrightarrow> n = m"
proof -
  assume e: "number_toString n = number_toString m"
  have neg: "\<And>a b. CHR ''-'' # digits a \<noteq> digits b"
  proof
    fix a b assume "CHR ''-'' # digits a = digits b"
    then have "hd (digits b) = CHR ''-''" by (metis list.sel(1))
    then show False using digits_hd_digit[of b] by simp
  qed
  show ?thesis
  proof (cases "n < 0"; cases "m < 0")
    assume "n < 0" "m < 0"
    then have "digits (nat (- n)) = digits (nat (- m))" using e by (simp add: number_toString_def)
    then have "nat (- n) = nat (- m)" by (rule digits_inj)
    then show ?thesis using \<open>n < 0\<close> \<open>m < 0\<close> by simp
  next
    assume "n < 0" "\<not> m < 0"
    then show ?thesis using e neg by (simp add: number_toString_def)
  next
    assume "\<not> n < 0" "m < 0"
    then show ?thesis using e neg[of "nat (- m)" "nat n"] by (simp add: number_toString_def)
  next
    assume "\<not> n < 0" "\<not> m < 0"
    then have "digits (nat n) = digits (nat m)" using e by (simp add: number_toString_def)
    then have "nat n = nat m" by (rule digits_inj)
    then show ?thesis using \<open>\<not> n < 0\<close> \<open>\<not> m < 0\<close> by simp
  qed
qed

lemma escape_char_nonempty: "escape_char c \<noteq> []"
  by (simp add: escape_char_def)

lemma escape_char_hd: "hd (escape_char c) \<noteq> CHR 0x22"
  by (simp add: escape_char_def)

lemma control_code_inj:
  assumes "(of_char c :: nat) < 32" "(of_char d :: nat) < 32"
    and "digit_char (of_char c div 16) = digit_char (of_char d div 16)"
    and "digit_char (of_char c mod 16) = digit_char (of_char d mod 16)"
  shows "c = d"
proof -
  have "(of_char c :: nat) div 16 = of_char d div 16"
    using assms(1,2) by (intro digit_char_inj[OF _ _ assms(3)]) auto
  moreover have "(of_char c :: nat) mod 16 = of_char d mod 16"
    by (intro digit_char_inj[OF _ _ assms(4)]) auto
  ultimately have "(of_char c :: nat) = of_char d" by (metis div_mult_mod_eq)
  then show ?thesis by simp
qed

lemma escape_char_prefix_free:
  "escape_char c @ xs = escape_char d @ ys \<Longrightarrow> c = d \<and> xs = ys"
  unfolding escape_char_def
  by (auto split: if_splits dest: control_code_inj)

lemma escaped_inj:
  "concat (map escape_char s) @ [CHR 0x22] = concat (map escape_char t) @ [CHR 0x22] \<Longrightarrow> s = t"
proof (induction s arbitrary: t)
  case Nil
  show ?case
  proof (cases t)
    case (Cons d t')
    then have "hd (escape_char d) = CHR 0x22"
      using Nil escape_char_nonempty[of d] by (cases "escape_char d") auto
    then show ?thesis using escape_char_hd by blast
  qed simp
next
  case (Cons c s)
  show ?case
  proof (cases t)
    case Nil
    then have "hd (escape_char c) = CHR 0x22"
      using Cons.prems escape_char_nonempty[of c] by (cases "escape_char c") auto
    then show ?thesis using escape_char_hd by blast
  next
    case (Cons d t')
    then have "escape_char c @ (concat (map escape_char s) @ [CHR 0x22])
             = escape_char d @ (concat (map escape_char t') @ [CHR 0x22])"
      using Cons.prems by simp
    then have "c = d" and "concat (map escape_char s) @ [CHR 0x22] = concat (map escape_char t') @ [CHR 0x22]"
      using escape_char_prefix_free by blast+
    then show ?thesis using Cons.IH Cons by simp
  qed
qed

lemma quote_inj: "quote s = quote t \<Longrightarrow> s = t"
  by (simp add: quote_def escaped_inj)

lemma number_toString_hd: "hd (number_toString n) \<in> set ''-0123456789''"
  using digits_hd_digit[of "nat n"] by (auto simp: number_toString_def)

lemma JSON_texts_hd:
  "hd (quote s) = CHR 0x22" "hd ''true'' = CHR ''t''" "hd ''false'' = CHR ''f''"
  by (simp_all add: quote_def)

lemma JSON_texts_distinct:
  "number_toString n \<noteq> quote s" "quote s \<noteq> number_toString n"
  "number_toString n \<noteq> ''true''" "''true'' \<noteq> number_toString n"
  "number_toString n \<noteq> ''false''" "''false'' \<noteq> number_toString n"
  "number_toString n \<noteq> ''null''" "''null'' \<noteq> number_toString n"
  "quote s \<noteq> ''true''" "''true'' \<noteq> quote s"
  "quote s \<noteq> ''false''" "''false'' \<noteq> quote s"
  "quote s \<noteq> ''null''" "''null'' \<noteq> quote s"
proof -
  have a: "hd (number_toString n) \<noteq> CHR 0x22" "hd (number_toString n) \<noteq> CHR ''t''"
    "hd (number_toString n) \<noteq> CHR ''f''" "hd (number_toString n) \<noteq> CHR ''n''"
    using number_toString_hd[of n] by auto
  have n: "hd ''null'' = CHR ''n''" by simp
  show "number_toString n \<noteq> quote s" "quote s \<noteq> number_toString n"
    using a(1) JSON_texts_hd(1)[of s] by metis+
  show "number_toString n \<noteq> ''true''" "''true'' \<noteq> number_toString n"
    using a(2) JSON_texts_hd(2) by metis+
  show "number_toString n \<noteq> ''false''" "''false'' \<noteq> number_toString n"
    using a(3) JSON_texts_hd(3) by metis+
  show "number_toString n \<noteq> ''null''" "''null'' \<noteq> number_toString n"
    using a(4) n by metis+
  show "quote s \<noteq> ''true''" "''true'' \<noteq> quote s"
    "quote s \<noteq> ''false''" "''false'' \<noteq> quote s"
    "quote s \<noteq> ''null''" "''null'' \<noteq> quote s"
    by (simp_all add: quote_def)
qed

text \<open>Two values have the same JSON text exactly when they are equal or both print as
  \<open>null\<close>.\<close>

lemma JSON_stringify_Some_eq:
  "JSON_stringify (Some x) = JSON_stringify (Some y) \<longleftrightarrow>
     x = y \<or> (prints_as_null x \<and> prints_as_null y)"
  by (cases "Some x" rule: JSON_stringify.cases; cases "Some y" rule: JSON_stringify.cases)
     (auto simp: JSON_texts_distinct prints_as_null_def dest: quote_inj number_toString_inj
        split: if_splits)

lemma JSON_stringify_None [simp]:
  "JSON_stringify (Some x) \<noteq> JSON_stringify None" "JSON_stringify None \<noteq> JSON_stringify (Some x)"
  by (cases "Some x" rule: JSON_stringify.cases; simp)+

lemma JSON_stringify_same_finite:
  "\<not> prints_as_null x \<or> \<not> prints_as_null y \<Longrightarrow>
   JSON_stringify (Some x) = JSON_stringify (Some y) \<longleftrightarrow> x = y"
  by (auto simp: JSON_stringify_Some_eq)

subsection \<open>What each method changes\<close>

lemma truthy_object_of [simp]: "truthy (object_of sv)"
  by (simp add: object_of_def)

lemma property_object_of [simp]:
  "property (object_of sv) ''value'' = Scalar (sv_value sv)"
  "property (object_of sv) ''isDefault'' = Scalar (JBoolean (sv_isDefault sv))"
  by (simp_all add: object_of_def)

lemma saveSettings_fields [simp]:
  "settings (saveSettings s) = settings s"
  "defaultSettings (saveSettings s) = defaultSettings s"
  "changeCallbacks (saveSettings s) = changeCallbacks s"
  "settingDefinitions (saveSettings s) = settingDefinitions s"
  "storageKey (saveSettings s) = storageKey s"
  "version (saveSettings s) = version s"
  "heap (saveSettings s) = heap s"
  "records (saveSettings s) = records s"
  "next_record (saveSettings s) = next_record s"
  "setItem_throws (saveSettings s) = setItem_throws s"
  "callback_throws (saveSettings s) = callback_throws s"
  by (simp_all add: saveSettings_def Let_def)

lemma forEach_callback_keeps:
  assumes "\<And>s t. f (s\<lparr>trace := t\<rparr>) = f s"
  shows "f (fst (forEach_callback cbs v old s)) = f s"
  by (induction cbs arbitrary: s) (simp_all add: Let_def assms)

lemma forEach_callback_fields [simp]:
  "settings (fst (forEach_callback cbs v old s)) = settings s"
  "defaultSettings (fst (forEach_callback cbs v old s)) = defaultSettings s"
  "changeCallbacks (fst (forEach_callback cbs v old s)) = changeCallbacks s"
  "settingDefinitions (fst (forEach_callback cbs v old s)) = settingDefinitions s"
  "storageKey (fst (forEach_callback cbs v old s)) = storageKey s"
  "version (fst (forEach_callback cbs v old s)) = version s"
  "heap (fst (forEach_callback cbs v old s)) = heap s"
  "records (fst (forEach_callback cbs v old s)) = records s"
  "next_record (fst (forEach_callback cbs v old s)) = next_record s"
  "localStorage (fst (forEach_callback cbs v old s)) = localStorage s"
  "setItem_throws (fst (forEach_callback cbs v old s)) = setItem_throws s"
  "callback_throws (fst (forEach_callback cbs v old s)) = callback_throws s"
  by (rule forEach_callback_keeps, simp)+

lemma forEach_callback_error:
  "snd (forEach_callback cbs v old s) = Some e \<Longrightarrow> \<exists>cb \<in> set cbs. e = CallbackError cb"
  by (induction cbs arbitrary: s) (auto simp: Let_def split: if_splits)

lemma setSetting_fields [simp]:
  "defaultSettings (fst (setSetting k v s)) = defaultSettings s"
  "changeCallbacks (fst (setSetting k v s)) = changeCallbacks s"
  "settingDefinitions (fst (setSetting k v s)) = settingDefinitions s"
  "storageKey (fst (setSetting k v s)) = storageKey s"
  "version (fst (setSetting k v s)) = version s"
  "heap (fst (setSetting k v s)) = heap s"
  "records (fst (setSetting k v s)) = records s"
  "next_record (fst (setSetting k v s)) = next_record s"
  "setItem_throws (fst (setSetting k v s)) = setItem_throws s"
  "callback_throws (fst (setSetting k v s)) = callback_throws s"
  by (simp_all add: setSetting_def Let_def split: option.splits)

text \<open>The value store accepts a write to a key when it holds a truthy entry for it.\<close>

lemma setSetting_absent:
  "map_of (settings s) k = None \<Longrightarrow> setSetting k v s = (s, Some (NotFoundError k))"
  by (simp add: setSetting_def)

lemma setSetting_falsy:
  "map_of (settings s) k = Some old \<Longrightarrow> \<not> truthy old \<Longrightarrow>
   setSetting k v s = (s, Some (NotFoundError k))"
  by (simp add: setSetting_def)

lemma setSetting_settings:
  "map_of (settings s) k = Some old \<Longrightarrow> truthy old \<Longrightarrow>
   settings (fst (setSetting k v s)) =
     AList.update k (object_of \<lparr>sv_value = v,
       sv_isDefault = (JSON_stringify (Some v) = JSON_stringify (map_of (defaultSettings s) k))\<rparr>)
       (settings s)"
  by (simp add: setSetting_def Let_def split: option.splits del: JSON_stringify.simps)

lemma setSetting_error:
  assumes "map_of (settings s) k = Some old" and "truthy old"
    and "snd (setSetting k v s) = Some e"
  shows "\<exists>cb \<in> set (case map_of (changeCallbacks s) k of None \<Rightarrow> [] | Some cbs \<Rightarrow> cbs).
           e = CallbackError cb"
  using assms
  by (auto simp: setSetting_def Let_def split: option.splits dest: forEach_callback_error
      simp del: JSON_stringify.simps)

lemma setSetting_not_found_iff:
  "snd (setSetting k v s) = Some (NotFoundError k') \<longleftrightarrow>
     k' = k \<and> (case map_of (settings s) k of None \<Rightarrow> True | Some old \<Rightarrow> \<not> truthy old)"
proof (cases "map_of (settings s) k")
  case None
  then show ?thesis by (auto simp: setSetting_absent)
next
  case (Some old)
  show ?thesis
  proof (cases "truthy old")
    case True
    then show ?thesis using setSetting_error[OF Some True, of v] Some by auto
  next
    case False
    then show ?thesis using Some by (auto simp: setSetting_falsy)
  qed
qed

lemma setSetting_lookup:
  "map_of (settings (fst (setSetting k v s))) k' =
     (if k' = k \<and> (\<exists>old. map_of (settings s) k = Some old \<and> truthy old)
      then Some (object_of \<lparr>sv_value = v,
        sv_isDefault = (JSON_stringify (Some v) = JSON_stringify (map_of (defaultSettings s) k))\<rparr>)
      else map_of (settings s) k')"
proof (cases "map_of (settings s) k")
  case None
  then show ?thesis by (simp add: setSetting_absent)
next
  case (Some old)
  then show ?thesis
    by (cases "truthy old") (auto simp: setSetting_settings setSetting_falsy update_conv')
qed

lemma setSetting_dom:
  "dom (map_of (settings (fst (setSetting k v s)))) = dom (map_of (settings s))"
  by (auto simp: setSetting_lookup split: if_splits)

lemma forEach_setSetting_Cons [simp]:
  "forEach_setSetting ((k, dflt) # rest) s =
     (if snd (setSetting k dflt s) = None
      then forEach_setSetting rest (fst (setSetting k dflt s))
      else setSetting k dflt s)"
  by (cases "setSetting k dflt s") (auto split: option.splits)

declare forEach_setSetting.simps(2) [simp del]

lemma forEach_setSetting_keeps:
  assumes "\<And>k v s. f (fst (setSetting k v s)) = f s"
  shows "f (fst (forEach_setSetting xs s)) = f s"
proof (induction xs arbitrary: s)
  case Nil
  show ?case by simp
next
  case (Cons x xs)
  obtain k dflt where x: "x = (k, dflt)" by (cases x)
  show ?case using Cons.IH[of "fst (setSetting k dflt s)"] assms
    by (simp add: x)
qed

lemma forEach_setSetting_fields [simp]:
  "defaultSettings (fst (forEach_setSetting xs s)) = defaultSettings s"
  "changeCallbacks (fst (forEach_setSetting xs s)) = changeCallbacks s"
  "settingDefinitions (fst (forEach_setSetting xs s)) = settingDefinitions s"
  "storageKey (fst (forEach_setSetting xs s)) = storageKey s"
  "version (fst (forEach_setSetting xs s)) = version s"
  "heap (fst (forEach_setSetting xs s)) = heap s"
  "records (fst (forEach_setSetting xs s)) = records s"
  "next_record (fst (forEach_setSetting xs s)) = next_record s"
  "setItem_throws (fst (forEach_setSetting xs s)) = setItem_throws s"
  "callback_throws (fst (forEach_setSetting xs s)) = callback_throws s"
  by (rule forEach_setSetting_keeps, simp)+

lemma forEach_setSetting_dom:
  "dom (map_of (settings (fst (forEach_setSetting xs s)))) = dom (map_of (settings s))"
  by (rule forEach_setSetting_keeps[where f = "\<lambda>s. dom (map_of (settings s))"])
     (rule setSetting_dom)

text \<open>A falsy entry stays as it is, and no write makes an entry falsy.\<close>

lemma setSetting_falsy_entries:
  "\<not> truthy e \<Longrightarrow>
   map_of (settings (fst (setSetting k v s))) k' = Some e \<longleftrightarrow> map_of (settings s) k' = Some e"
  by (auto simp: setSetting_lookup split: if_splits)

lemma forEach_setSetting_falsy_entries:
  "\<not> truthy e \<Longrightarrow>
   map_of (settings (fst (forEach_setSetting xs s))) k' = Some e \<longleftrightarrow>
     map_of (settings s) k' = Some e"
  by (rule forEach_setSetting_keeps[where f = "\<lambda>s. map_of (settings s) k' = Some e"])
     (rule setSetting_falsy_entries)

lemma forEach_setSetting_not_found:
  "snd (forEach_setSetting xs s) = Some (NotFoundError k') \<Longrightarrow>
   k' \<in> fst ` set xs \<and>
   (case map_of (settings s) k' of None \<Rightarrow> True | Some old \<Rightarrow> \<not> truthy old)"
proof (induction xs arbitrary: s)
  case Nil
  then show ?case by simp
next
  case (Cons x xs)
  obtain k dflt where x: "x = (k, dflt)" by (cases x)
  show ?case
  proof (cases "snd (setSetting k dflt s) = None")
    case True
    then have "snd (forEach_setSetting xs (fst (setSetting k dflt s))) = Some (NotFoundError k')"
      using Cons.prems by (simp add: x)
    then have a: "k' \<in> fst ` set xs"
      and b: "case map_of (settings (fst (setSetting k dflt s))) k' of
                None \<Rightarrow> True | Some old \<Rightarrow> \<not> truthy old"
      using Cons.IH by blast+
    have "case map_of (settings s) k' of None \<Rightarrow> True | Some old \<Rightarrow> \<not> truthy old"
      using b by (auto simp: setSetting_lookup split: if_splits option.splits)
    with a show ?thesis by (simp add: x)
  next
    case False
    then have "snd (setSetting k dflt s) = Some (NotFoundError k')"
      using Cons.prems by (auto simp: x)
    then show ?thesis by (simp add: setSetting_not_found_iff x)
  qed
qed

lemma resetAllToDefaults_fields [simp]:
  "defaultSettings (fst (resetAllToDefaults s)) = defaultSettings s"
  "changeCallbacks (fst (resetAllToDefaults s)) = changeCallbacks s"
  "settingDefinitions (fst (resetAllToDefaults s)) = settingDefinitions s"
  "storageKey (fst (resetAllToDefaults s)) = storageKey s"
  "version (fst (resetAllToDefaults s)) = version s"
  "heap (fst (resetAllToDefaults s)) = heap s"
  "records (fst (resetAllToDefaults s)) = records s"
  "next_record (fst (resetAllToDefaults s)) = next_record s"
  "setItem_throws (fst (resetAllToDefaults s)) = setItem_throws s"
  "callback_throws (fst (resetAllToDefaults s)) = callback_throws s"
  by (simp_all add: resetAllToDefaults_def)

lemma resetAllToDefaults_dom:
  "dom (map_of (settings (fst (resetAllToDefaults s)))) = dom (map_of (settings s))"
  by (simp add: resetAllToDefaults_def forEach_setSetting_dom)

lemma resetToDefault_fields [simp]:
  "defaultSettings (fst (resetToDefault k s)) = defaultSettings s"
  "changeCallbacks (fst (resetToDefault k s)) = changeCallbacks s"
  "settingDefinitions (fst (resetToDefault k s)) = settingDefinitions s"
  "storageKey (fst (resetToDefault k s)) = storageKey s"
  "version (fst (resetToDefault k s)) = version s"
  "heap (fst (resetToDefault k s)) = heap s"
  "records (fst (resetToDefault k s)) = records s"
  "next_record (fst (resetToDefault k s)) = next_record s"
  "setItem_throws (fst (resetToDefault k s)) = setItem_throws s"
  "callback_throws (fst (resetToDefault k s)) = callback_throws s"
  by (simp_all add: resetToDefault_def split: option.splits)

lemma resetToDefault_dom:
  "dom (map_of (settings (fst (resetToDefault k s)))) = dom (map_of (settings s))"
  by (simp add: resetToDefault_def setSetting_dom split: option.splits)

lemma resetToDefault_falsy_entries:
  "\<not> truthy e \<Longrightarrow>
   map_of (settings (fst (resetToDefault k s))) k' = Some e \<longleftrightarrow> map_of (settings s) k' = Some e"
  by (simp add: resetToDefault_def setSetting_falsy_entries split: option.splits)

lemma defineSetting_rejected:
  "validateSettingDefinition (heap s r) = Some e \<Longrightarrow> defineSetting r s = (s, Some e)"
  by (simp add: defineSetting_def)

lemma defineSetting_accepted:
  assumes "validateSettingDefinition (heap s r) = None"
  shows "snd (defineSetting r s) = None"
    and "defaultSettings (fst (defineSetting r s)) =
           AList.update (key (heap s r)) (defaultValue (heap s r)) (defaultSettings s)"
    and "settingDefinitions (fst (defineSetting r s)) =
           AList.update (key (heap s r)) r (settingDefinitions s)"
    and "settings (fst (defineSetting r s)) =
           (if map_of (settings s) (key (heap s r)) = None
            then AList.update (key (heap s r))
                   (object_of \<lparr>sv_value = defaultValue (heap s r), sv_isDefault = True\<rparr>) (settings s)
            else settings s)"
  using assms by (simp_all add: defineSetting_def Let_def)

lemma defineSetting_fields [simp]:
  "changeCallbacks (fst (defineSetting r s)) = changeCallbacks s"
  "storageKey (fst (defineSetting r s)) = storageKey s"
  "version (fst (defineSetting r s)) = version s"
  "heap (fst (defineSetting r s)) = heap s"
  "records (fst (defineSetting r s)) = records s"
  "next_record (fst (defineSetting r s)) = next_record s"
  "localStorage (fst (defineSetting r s)) = localStorage s"
  "setItem_throws (fst (defineSetting r s)) = setItem_throws s"
  "callback_throws (fst (defineSetting r s)) = callback_throws s"
  "trace (fst (defineSetting r s)) = trace s"
  by (simp_all add: defineSetting_def Let_def split: option.splits)

lemma defineSetting_falsy_entries:
  "\<not> truthy e \<Longrightarrow>
   map_of (settings (fst (defineSetting r s))) k' = Some e \<longleftrightarrow> map_of (settings s) k' = Some e"
proof (cases "validateSettingDefinition (heap s r)")
  case None
  assume "\<not> truthy e"
  then show ?thesis using None
    by (auto simp: defineSetting_accepted(4) update_conv' split: if_splits)
next
  case (Some err)
  then show ?thesis by (simp add: defineSetting_rejected)
qed

subsection \<open>Subscriptions, \<open>getAllSettings\<close> and the environment\<close>

lemma onSettingChange_fields [simp]:
  "settings (onSettingChange k cb s) = settings s"
  "defaultSettings (onSettingChange k cb s) = defaultSettings s"
  "settingDefinitions (onSettingChange k cb s) = settingDefinitions s"
  "storageKey (onSettingChange k cb s) = storageKey s"
  "version (onSettingChange k cb s) = version s"
  "heap (onSettingChange k cb s) = heap s"
  "records (onSettingChange k cb s) = records s"
  "next_record (onSettingChange k cb s) = next_record s"
  "localStorage (onSettingChange k cb s) = localStorage s"
  "setItem_throws (onSettingChange k cb s) = setItem_throws s"
  "callback_throws (onSettingChange k cb s) = callback_throws s"
  "trace (onSettingChange k cb s) = trace s"
  by (simp_all add: onSettingChange_def Let_def)

lemma removeSettingChangeListener_fields [simp]:
  "settings (removeSettingChangeListener k cb s) = settings s"
  "defaultSettings (removeSettingChangeListener k cb s) = defaultSettings s"
  "settingDefinitions (removeSettingChangeListener k cb s) = settingDefinitions s"
  "storageKey (removeSettingChangeListener k cb s) = storageKey s"
  "version (removeSettingChangeListener k cb s) = version s"
  "heap (removeSettingChangeListener k cb s) = heap s"
  "records (removeSettingChangeListener k cb s) = records s"
  "next_record (removeSettingChangeListener k cb s) = next_record s"
  "localStorage (removeSettingChangeListener k cb s) = localStorage s"
  "setItem_throws (removeSettingChangeListener k cb s) = setItem_throws s"
  "callback_throws (removeSettingChangeListener k cb s) = callback_throws s"
  "trace (removeSettingChangeListener k cb s) = trace s"
  by (simp_all add: removeSettingChangeListener_def split: option.splits)

lemma getAllSettings_fields [simp]:
  "settings (fst (getAllSettings s)) = settings s"
  "defaultSettings (fst (getAllSettings s)) = defaultSettings s"
  "settingDefinitions (fst (getAllSettings s)) = settingDefinitions s"
  "changeCallbacks (fst (getAllSettings s)) = changeCallbacks s"
  "storageKey (fst (getAllSettings s)) = storageKey s"
  "version (fst (getAllSettings s)) = version s"
  "heap (fst (getAllSettings s)) = heap s"
  "localStorage (fst (getAllSettings s)) = localStorage s"
  "setItem_throws (fst (getAllSettings s)) = setItem_throws s"
  "callback_throws (fst (getAllSettings s)) = callback_throws s"
  "trace (fst (getAllSettings s)) = trace s"
  by (simp_all add: getAllSettings_def Let_def)

subsection \<open>Keys of the two maps along a run\<close>

lemma defineSetting_dom_defaults:
  "dom (map_of (defaultSettings (fst (defineSetting r s)))) =
     dom (map_of (defaultSettings s)) \<union>
     (if validateSettingDefinition (heap s r) = None then {key (heap s r)} else {})"
proof (cases "validateSettingDefinition (heap s r)")
  case None
  then show ?thesis by (auto simp: defineSetting_accepted(2) update_conv')
next
  case (Some e)
  then show ?thesis by (simp add: defineSetting_rejected)
qed

lemma defineSetting_dom_settings:
  "dom (map_of (settings (fst (defineSetting r s)))) =
     dom (map_of (settings s)) \<union>
     (if validateSettingDefinition (heap s r) = None then {key (heap s r)} else {})"
proof (cases "validateSettingDefinition (heap s r)")
  case None
  then show ?thesis by (auto simp: defineSetting_accepted(4) update_conv')
next
  case (Some e)
  then show ?thesis by (simp add: defineSetting_rejected)
qed

lemma perform_dom_defaults:
  "dom (map_of (defaultSettings (perform op s))) = dom (map_of (defaultSettings s)) \<union> defined_keys [op] s"
  by (cases op) (simp_all add: defineSetting_dom_defaults)

lemma perform_dom_settings:
  "dom (map_of (settings (perform op s))) = dom (map_of (settings s)) \<union> defined_keys [op] s"
  by (cases op)
     (simp_all add: defineSetting_dom_settings setSetting_dom resetToDefault_dom resetAllToDefaults_dom)

lemma defined_keys_Cons:
  "defined_keys (op # ops) s = defined_keys [op] s \<union> defined_keys ops (perform op s)"
  by (cases op) simp_all

lemma run_dom_defaults:
  "dom (map_of (defaultSettings (run ops s))) = dom (map_of (defaultSettings s)) \<union> defined_keys ops s"
proof (induction ops arbitrary: s)
  case Nil
  show ?case by simp
next
  case (Cons op ops)
  show ?case
    using Cons.IH[of "perform op s"] perform_dom_defaults[of op s] defined_keys_Cons[of op ops s]
    by auto
qed

lemma run_dom_settings:
  "dom (map_of (settings (run ops s))) = dom (map_of (settings s)) \<union> defined_keys ops s"
proof (induction ops arbitrary: s)
  case Nil
  show ?case by simp
next
  case (Cons op ops)
  show ?case
    using Cons.IH[of "perform op s"] perform_dom_settings[of op s] defined_keys_Cons[of op ops s]
    by auto
qed

lemma store_inv_dom:
  "store_inv s \<longleftrightarrow> dom (map_of (defaultSettings s)) \<subseteq> dom (map_of (settings s))"
  by (simp add: store_inv_def dom_map_of_conv_image_fst)

lemma run_store_inv: "store_inv s \<Longrightarrow> store_inv (run ops s)"
  unfolding store_inv_dom run_dom_defaults run_dom_settings by auto

lemma perform_falsy_entries:
  "\<not> truthy e \<Longrightarrow>
   map_of (settings (perform op s)) k = Some e \<longleftrightarrow> map_of (settings s) k = Some e"
  by (cases op)
     (simp_all add: defineSetting_falsy_entries setSetting_falsy_entries
        resetToDefault_falsy_entries resetAllToDefaults_def forEach_setSetting_falsy_entries)

lemma run_falsy_entries:
  "\<not> truthy e \<Longrightarrow>
   map_of (settings (run ops s)) k = Some e \<longleftrightarrow> map_of (settings s) k = Some e"
  by (induction ops arbitrary: s) (simp_all add: perform_falsy_entries)

text \<open>The default recorded for a key is the default value of the definition last
  registered for it.\<close>

lemma defineSetting_defaults_lookup:
  "map_of (defaultSettings (fst (defineSetting r s))) k =
     (if validateSettingDefinition (heap s r) = None \<and> key (heap s r) = k
      then Some (defaultValue (heap s r)) else map_of (defaultSettings s) k)"
proof (cases "validateSettingDefinition (heap s r)")
  case None
  then show ?thesis by (auto simp: defineSetting_accepted(2) update_conv')
next
  case (Some e)
  then show ?thesis by (simp add: defineSetting_rejected)
qed

lemma run_defaults_lookup:
  "map_of (defaultSettings (run ops s)) k =
     (case registered_default ops s k of
        Some d \<Rightarrow> Some d
      | None \<Rightarrow> map_of (defaultSettings s) k)"
proof (induction ops arbitrary: s)
  case Nil
  show ?case by simp
next
  case (Cons op ops)
  show ?case
    by (cases op)
       (simp_all add: Cons.IH defineSetting_defaults_lookup split: option.splits)
qed

lemma registered_default_defined:
  "registered_default ops s k \<noteq> None \<longleftrightarrow> k \<in> defined_keys ops s"
proof (induction ops arbitrary: s)
  case Nil
  show ?case by simp
next
  case (Cons op ops)
  have ih: "registered_default ops (perform op s) k \<noteq> None \<longleftrightarrow>
      k \<in> defined_keys ops (perform op s)"
    by (rule Cons.IH)
  show ?case using ih
    by (cases op) (auto split: option.splits)
qed

subsection \<open>Construction\<close>

lemma resetAllToDefaults_empty:
  "defaultSettings s = [] \<Longrightarrow> resetAllToDefaults s = (s, None)"
  by (simp add: resetAllToDefaults_def)

lemma load_failed_empty:
  "defaultSettings s = [] \<Longrightarrow>
   load_failed s = (s\<lparr>trace := trace s @ [ConsoleError ''Error loading settings:'']\<rparr>, None)"
  by (simp add: load_failed_def resetAllToDefaults_empty)

lemma fold_set_fields:
  "defaultSettings (fold (\<lambda>(k, v) s'. s'\<lparr>settings := AList.update k v (settings s')\<rparr>) xs s) = defaultSettings s"
  "settingDefinitions (fold (\<lambda>(k, v) s'. s'\<lparr>settings := AList.update k v (settings s')\<rparr>) xs s) = settingDefinitions s"
  "changeCallbacks (fold (\<lambda>(k, v) s'. s'\<lparr>settings := AList.update k v (settings s')\<rparr>) xs s) = changeCallbacks s"
  "storageKey (fold (\<lambda>(k, v) s'. s'\<lparr>settings := AList.update k v (settings s')\<rparr>) xs s) = storageKey s"
  "version (fold (\<lambda>(k, v) s'. s'\<lparr>settings := AList.update k v (settings s')\<rparr>) xs s) = version s"
  "heap (fold (\<lambda>(k, v) s'. s'\<lparr>settings := AList.update k v (settings s')\<rparr>) xs s) = heap s"
  by (induction xs arbitrary: s; simp add: case_prod_beta)+

lemma fold_set_map_of:
  "map_of (settings (fold (\<lambda>(k, v) s'. s'\<lparr>settings := AList.update k v (settings s')\<rparr>) xs s)) =
     map_of (settings s) ++ map_of (rev xs)"
proof (induction xs arbitrary: s)
  case Nil
  show ?case by simp
next
  case (Cons x xs)
  show ?case by (cases x) (simp add: Cons.IH update_conv' map_add_upd_left fun_eq_iff map_add_def split: option.splits)
qed

lemma new_UserScriptSettings_returns: "snd (new_UserScriptSettings sk ver w) = None"
  by (simp add: new_UserScriptSettings_def loadSettings_def load_failed_empty resetAllToDefaults_empty
      split: option.splits stored_text.splits)

lemma new_UserScriptSettings_fields:
  "defaultSettings (fst (new_UserScriptSettings sk ver w)) = []"
  "settingDefinitions (fst (new_UserScriptSettings sk ver w)) = []"
  "changeCallbacks (fst (new_UserScriptSettings sk ver w)) = []"
  "storageKey (fst (new_UserScriptSettings sk ver w)) = sk"
  "version (fst (new_UserScriptSettings sk ver w)) = ver"
  "heap (fst (new_UserScriptSettings sk ver w)) = heap w"
  by (simp_all add: new_UserScriptSettings_def loadSettings_def load_failed_empty
      resetAllToDefaults_empty fold_set_fields split: option.splits stored_text.splits)

lemma new_UserScriptSettings_settings:
  "map_of (settings (fst (new_UserScriptSettings sk ver w))) = map_of (rev (snapshot_entries sk ver w))"
  by (simp add: new_UserScriptSettings_def loadSettings_def load_failed_empty
      resetAllToDefaults_empty fold_set_map_of snapshot_entries_def
      split: option.splits stored_text.splits)

lemma new_UserScriptSettings_entry:
  "map_of (settings (fst (new_UserScriptSettings sk ver w))) k = snapshot_entry sk ver w k"
  by (simp add: new_UserScriptSettings_settings snapshot_entry_def)

lemma new_UserScriptSettings_inv: "store_inv (fst (new_UserScriptSettings sk ver w))"
  by (simp add: store_inv_def new_UserScriptSettings_fields)

subsection \<open>The demo script, evaluated\<close>

lemma demo_validations:
  "validateSettingDefinition theme_definition = None"
  "validateSettingDefinition autoSave_definition = None"
  "validateSettingDefinition refreshInterval_definition = None"
  "validateSettingDefinition (theme_definition\<lparr>defaultValue := JString ''dark''\<rparr>) = None"
  "validateSettingDefinition (autoSave_definition\<lparr>validator := Some reject_all\<rparr>) = None"
  "validateSettingDefinition limit_definition = None"
  "validateSettingDefinition (theme_definition\<lparr>key := ''__proto__''\<rparr>) = None"
  by (simp_all add: validateSettingDefinition_def theme_definition_def autoSave_definition_def
      refreshInterval_definition_def limit_definition_def optional_def no_options_def
      theme_choices_def strict_equal_def)

lemma demo_heap_at:
  "demo_heap 10 = theme_definition" "demo_heap 20 = autoSave_definition"
  "demo_heap 30 = refreshInterval_definition"
  "demo_heap 40 = theme_definition\<lparr>defaultValue := JString ''dark''\<rparr>"
  "demo_heap 50 = autoSave_definition\<lparr>validator := Some reject_all\<rparr>"
  "demo_heap 60 = limit_definition"
  "demo_heap 70 = theme_definition\<lparr>key := ''__proto__''\<rparr>"
  by (simp_all add: demo_heap_def)

lemma demo_keys:
  "key theme_definition = ''theme''" "key autoSave_definition = ''autoSave''"
  "key refreshInterval_definition = ''refreshInterval''" "key limit_definition = ''limit''"
  "defaultValue theme_definition = JString ''light''"
  "defaultValue autoSave_definition = JBoolean True"
  "defaultValue refreshInterval_definition = JNumber (Finite 5000)"
  "defaultValue limit_definition = JNumber PosInfinity"
  by (simp_all add: theme_definition_def autoSave_definition_def refreshInterval_definition_def
      limit_definition_def)

lemma fresh_store_eq:
  "fresh_store =
     \<lparr>heap = demo_heap, records = (\<lambda>a. \<lparr>prototype = None, own_entries = []\<rparr>),
      next_record = 0, localStorage = Map.empty,
      getItem_throws = False, setItem_throws = False, callback_throws = demo_callbacks,
      trace = [],
      settings = [], changeCallbacks = [], storageKey = ''demo-settings'', version = ''1.0.0'',
      defaultSettings = [], settingDefinitions = []\<rparr>"
  by (simp add: fresh_store_def new_UserScriptSettings_def loadSettings_def fresh_page_def)

lemma returning_store_eq:
  "returning_store =
     \<lparr>heap = demo_heap, records = (\<lambda>a. \<lparr>prototype = None, own_entries = []\<rparr>),
      next_record = 0,
      localStorage = [''demo-settings'' \<mapsto> ParsesTo demo_snapshot],
      getItem_throws = False, setItem_throws = False, callback_throws = demo_callbacks,
      trace = [],
      settings = [(''theme'', object_of \<lparr>sv_value = JString ''dark'', sv_isDefault = True\<rparr>),
                  (''legacy'', object_of \<lparr>sv_value = JNumber (Finite 7), sv_isDefault = False\<rparr>)],
      changeCallbacks = [], storageKey = ''demo-settings'', version = ''1.0.0'',
      defaultSettings = [], settingDefinitions = []\<rparr>"
  by (simp add: returning_store_def new_UserScriptSettings_def loadSettings_def fresh_page_def
      returning_page_def demo_snapshot_def stored_version_def get_property_def)

lemma upgraded_store_eq:
  "upgraded_store =
     \<lparr>heap = demo_heap, records = (\<lambda>a. \<lparr>prototype = None, own_entries = []\<rparr>),
      next_record = 0,
      localStorage = [''demo-settings'' \<mapsto> ParsesTo demo_snapshot],
      getItem_throws = False, setItem_throws = False, callback_throws = demo_callbacks,
      trace = [],
      settings = [], changeCallbacks = [], storageKey = ''demo-settings'', version = ''2.0.0'',
      defaultSettings = [], settingDefinitions = []\<rparr>"
  by (simp add: upgraded_store_def new_UserScriptSettings_def loadSettings_def fresh_page_def
      returning_page_def demo_snapshot_def resetAllToDefaults_def stored_version_def
      get_property_def)

lemma damaged_store_eq:
  "damaged_store =
     \<lparr>heap = demo_heap, records = (\<lambda>a. \<lparr>prototype = None, own_entries = []\<rparr>),
      next_record = 0,
      localStorage = [''demo-settings'' \<mapsto> ParsesTo damaged_snapshot],
      getItem_throws = False, setItem_throws = False, callback_throws = demo_callbacks,
      trace = [],
      settings = [(''theme'', Null)],
      changeCallbacks = [], storageKey = ''demo-settings'', version = ''1.0.0'',
      defaultSettings = [], settingDefinitions = []\<rparr>"
  by (simp add: damaged_store_def new_UserScriptSettings_def loadSettings_def fresh_page_def
      damaged_page_def damaged_snapshot_def stored_version_def get_property_def)

lemma demo_snapshot_entries:
  "snapshot_entries ''demo-settings'' ''1.0.0'' fresh_page = []"
  "snapshot_entries ''demo-settings'' ''1.0.0'' returning_page =
     [(''theme'', object_of \<lparr>sv_value = JString ''dark'', sv_isDefault = True\<rparr>),
      (''legacy'', object_of \<lparr>sv_value = JNumber (Finite 7), sv_isDefault = False\<rparr>)]"
  "snapshot_entries ''demo-settings'' ''1.0.0'' damaged_page = [(''theme'', Null)]"
  by (simp_all add: snapshot_entries_def fresh_page_def returning_page_def damaged_page_def
      demo_snapshot_def damaged_snapshot_def stored_version_def get_property_def)

lemma demo_theme_defined:
  "fst (defineSetting 10 fresh_store) =
     fresh_store\<lparr>settings := [(''theme'', object_of \<lparr>sv_value = JString ''light'', sv_isDefault = True\<rparr>)],
                  defaultSettings := [(''theme'', JString ''light'')],
                  settingDefinitions := [(''theme'', 10)]\<rparr>"
  by (simp add: fresh_store_eq defineSetting_def demo_heap_at demo_validations demo_keys)

subsection \<open>Registering definitions\<close>

lemma find_append_case:
  "find P (xs @ ys) = (case find P xs of None \<Rightarrow> find P ys | Some x \<Rightarrow> Some x)"
  by (induction xs) simp_all

lemma find_SomeD: "find P xs = Some x \<Longrightarrow> x \<in> set xs \<and> P x"
  by (induction xs) (auto split: if_splits)

lemma register_Cons: "register (r # rs) s = register rs (fst (defineSetting r s))"
  by (simp add: register_def)

lemma register_heap [simp]: "heap (register rs s) = heap s"
  by (induction rs arbitrary: s) (simp_all add: register_def)

lemma defineSetting_settings_lookup:
  "map_of (settings (fst (defineSetting r s))) k =
     (case map_of (settings s) k of
        Some existing \<Rightarrow> Some existing
      | None \<Rightarrow>
          if validateSettingDefinition (heap s r) = None \<and> key (heap s r) = k
          then Some (object_of \<lparr>sv_value = defaultValue (heap s r), sv_isDefault = True\<rparr>) else None)"
proof (cases "validateSettingDefinition (heap s r)")
  case None
  then show ?thesis by (auto simp: defineSetting_accepted(4) update_conv' split: option.splits)
next
  case (Some e)
  then show ?thesis by (simp add: defineSetting_rejected split: option.splits)
qed

lemma register_settings_lookup:
  "map_of (settings (register rs s)) k =
     (case map_of (settings s) k of
        Some existing \<Rightarrow> Some existing
      | None \<Rightarrow> map_option (\<lambda>r. object_of \<lparr>sv_value = defaultValue (heap s r), sv_isDefault = True\<rparr>)
                  (first_definition (heap s) rs k))"
proof (induction rs arbitrary: s)
  case Nil
  show ?case by (simp add: register_def first_definition_def split: option.splits)
next
  case (Cons r rs)
  show ?case
    unfolding register_Cons Cons.IH
    by (simp add: defineSetting_settings_lookup first_definition_def split: option.splits)
qed

lemma register_defaults_lookup:
  "map_of (defaultSettings (register rs s)) k =
     (case first_definition (heap s) (rev rs) k of
        None \<Rightarrow> map_of (defaultSettings s) k
      | Some r \<Rightarrow> Some (defaultValue (heap s r)))"
proof (induction rs arbitrary: s)
  case Nil
  show ?case by (simp add: register_def first_definition_def)
next
  case (Cons r rs)
  show ?case
    unfolding register_Cons Cons.IH
    by (simp add: defineSetting_defaults_lookup first_definition_def find_append_case split: option.splits)
qed

lemma first_definition_distinct:
  assumes "distinct (map (\<lambda>r. key (h r)) rs)"
    and "first_definition h (rev rs) k = Some r"
  shows "first_definition h rs k = Some r"
proof -
  let ?P = "\<lambda>r. validateSettingDefinition (h r) = None \<and> key (h r) = k"
  from assms(2) have r: "r \<in> set rs" "?P r"
    using find_SomeD[of ?P "rev rs" r] by (auto simp: first_definition_def)
  then obtain r' where r': "first_definition h rs k = Some r'"
    by (cases "first_definition h rs k") (auto simp: first_definition_def find_None_iff)
  then have "r' \<in> set rs" "?P r'"
    using find_SomeD[of ?P rs r'] by (auto simp: first_definition_def)
  with r assms(1) have "r' = r"
    by (metis (mono_tags, lifting) distinct_map inj_on_def)
  with r' show ?thesis by simp
qed


subsection \<open>Validation at definition time\<close>

lemma validateSettingDefinition_validator:
  "validateSettingDefinition (def\<lparr>validator := f\<rparr>) = validateSettingDefinition def"
  by (simp add: validateSettingDefinition_def split: SettingType.split option.split jsval.split)

text \<open>
  C1 (as amended). \<open>defineSetting\<close> runs the built-in per-type check only. A validator
  supplied with the definition is kept in the definition object and never called: the call
  throws exactly the error of the built-in check, and a definition that differs in nothing
  but its validator leads to the same error and the same store.
\<close>

theorem defineSetting_ignores_validator:
  "snd (defineSetting r s) = validateSettingDefinition (heap s r) \<and>
   defineSetting r (with_validator f r s) =
     (with_validator f r (fst (defineSetting r s)), snd (defineSetting r s))"
proof
  show "snd (defineSetting r s) = validateSettingDefinition (heap s r)"
    by (simp add: defineSetting_def Let_def split: option.splits)
  show "defineSetting r (with_validator f r s) =
     (with_validator f r (fst (defineSetting r s)), snd (defineSetting r s))"
    by (simp add: defineSetting_def with_validator_def Let_def validateSettingDefinition_validator
        split: option.splits)
qed

theorem defineSetting_ignores_validator_witness:
  "snd (defineSetting 20 (with_validator (Some reject_all) 20 fresh_store)) = None"
  using defineSetting_ignores_validator [of 20 fresh_store "Some reject_all"]
  by (simp add: fresh_store_eq demo_heap_at demo_validations)

text \<open>
  C1 as stated fails: the \<open>autoSave\<close> definition at address 50 carries a validator that
  returns false on its default value, and \<open>defineSetting\<close> returns normally.
\<close>

theorem validator_not_run_counterexample:
  "validator (heap fresh_store 50) = Some reject_all \<and>
   reject_all (defaultValue (heap fresh_store 50)) = False \<and>
   snd (defineSetting 50 fresh_store) = None"
  by (simp add: fresh_store_eq demo_heap_at demo_validations defineSetting_accepted(1)
      reject_all_def)

subsection \<open>Seeding the value store\<close>

text \<open>
  C2 (as amended). When a definition is accepted and the value store already holds an
  entry for its key (copied from the persisted snapshot, or seeded by an earlier
  definition), the whole value store is left as it is: the entry keeps its value and its
  stored \<open>isDefault\<close> flag, which is not recomputed. When the store holds no entry, one
  is created with the default value and \<open>isDefault = true\<close>.
\<close>

theorem defineSetting_seeds_or_keeps:
  assumes "validateSettingDefinition (heap s r) = None"
  shows "(\<forall>existing. map_of (settings s) (key (heap s r)) = Some existing \<longrightarrow>
            settings (fst (defineSetting r s)) = settings s) \<and>
         (map_of (settings s) (key (heap s r)) = None \<longrightarrow>
            map_of (settings (fst (defineSetting r s))) (key (heap s r)) =
              Some (object_of \<lparr>sv_value = defaultValue (heap s r), sv_isDefault = True\<rparr>))"
  using assms by (simp add: defineSetting_accepted(4) update_conv')

theorem defineSetting_seeds_or_keeps_witness:
  "validateSettingDefinition (heap returning_store 10) = None \<and>
   map_of (settings returning_store) (key (heap returning_store 10)) =
     Some (object_of \<lparr>sv_value = JString ''dark'', sv_isDefault = True\<rparr>) \<and>
   settings (fst (defineSetting 10 returning_store)) = settings returning_store \<and>
   validateSettingDefinition (heap returning_store 20) = None \<and>
   map_of (settings returning_store) (key (heap returning_store 20)) = None \<and>
   map_of (settings (fst (defineSetting 20 returning_store))) (key (heap returning_store 20)) =
     Some (object_of \<lparr>sv_value = JBoolean True, sv_isDefault = True\<rparr>)"
  using defineSetting_seeds_or_keeps [of returning_store 10]
    defineSetting_seeds_or_keeps [of returning_store 20]
  by (simp add: returning_store_eq demo_heap_at demo_validations demo_keys)

text \<open>
  C2 as stated fails: the snapshot holds \<open>theme = dark\<close> flagged as default; the
  definition registered afterwards has the default \<open>light\<close>. The persisted value wins,
  and so does its flag: \<open>isDefault\<close> stays true although the value differs from the
  default of the current definition.
\<close>

theorem isDefault_not_recomputed_counterexample:
  "map_of (settings returning_store) ''theme'' =
     Some (object_of \<lparr>sv_value = JString ''dark'', sv_isDefault = True\<rparr>) \<and>
   defaultValue (heap returning_store 10) = JString ''light'' \<and>
   snd (defineSetting 10 returning_store) = None \<and>
   getSetting ''theme'' (fst (defineSetting 10 returning_store)) = Inr (Scalar (JString ''dark'')) \<and>
   isDefault ''theme'' (fst (defineSetting 10 returning_store)) = Scalar (JBoolean True) \<and>
   JSON_stringify (Some (JString ''dark'')) \<noteq> JSON_stringify (Some (JString ''light''))"
  by (simp add: returning_store_eq demo_heap_at demo_validations demo_keys defineSetting_def
      getSetting_def isDefault_def JSON_stringify_Some_eq prints_as_null_def
      del: JSON_stringify.simps)

subsection \<open>Reading a value\<close>

lemma run_entry_cases:
  "(case map_of (settings (run ops s)) k of None \<Rightarrow> True | Some e \<Rightarrow> \<not> truthy e) \<longleftrightarrow>
     (case map_of (settings s) k of None \<Rightarrow> k \<notin> defined_keys ops s | Some e \<Rightarrow> \<not> truthy e)"
proof (cases "map_of (settings s) k")
  case None
  show ?thesis
  proof (cases "map_of (settings (run ops s)) k")
    case n: None
    then have "k \<notin> dom (map_of (settings (run ops s)))" by blast
    then have "k \<notin> defined_keys ops s" by (simp add: run_dom_settings)
    with None n show ?thesis by simp
  next
    case (Some e)
    then have "k \<in> dom (map_of (settings (run ops s)))" by blast
    then have d: "k \<in> defined_keys ops s" using None by (auto simp: run_dom_settings)
    have "truthy e" using Some None run_falsy_entries[of e ops s k] by auto
    with None Some d show ?thesis by simp
  qed
next
  case (Some e)
  then have "k \<in> dom (map_of (settings (run ops s)))" by (auto simp: run_dom_settings)
  then obtain e' where e': "map_of (settings (run ops s)) k = Some e'" by blast
  have "truthy e' \<longleftrightarrow> truthy e"
    using run_falsy_entries[of e ops s k] run_falsy_entries[of e' ops s k] Some e' by auto
  with Some e' show ?thesis by simp
qed

lemma run_blocked:
  "(case map_of (settings (run ops (fst (new_UserScriptSettings sk ver w)))) k of
      None \<Rightarrow> True | Some e \<Rightarrow> \<not> truthy e) \<longleftrightarrow>
   blocked sk ver w k \<or>
   (snapshot_entry sk ver w k = None \<and> k \<notin> defined_keys ops (fst (new_UserScriptSettings sk ver w)))"
  unfolding run_entry_cases new_UserScriptSettings_entry blocked_def
  by (auto split: option.splits)

text \<open>
  C3 (as amended). In every state that a run reaches from construction,
  \<open>getSetting(key)\<close> fails with the not-found error exactly when the value store holds
  no entry or a falsy entry for the key: that is, when the snapshot copied at
  construction (a readable text of the configured version) holds a falsy value for the
  key, or when it holds nothing for the key and no successful \<open>defineSetting\<close> of the
  run defined it. In every other case it returns the property \<open>value\<close> of the entry
  currently stored for the key.
\<close>

theorem getSetting_not_found_iff:
  "(getSetting k (run ops (fst (new_UserScriptSettings sk ver w))) = Inl (NotFoundError k)
      \<longleftrightarrow> blocked sk ver w k \<or>
          (snapshot_entry sk ver w k = None \<and>
           k \<notin> defined_keys ops (fst (new_UserScriptSettings sk ver w)))) \<and>
   (\<forall>setting. map_of (settings (run ops (fst (new_UserScriptSettings sk ver w)))) k = Some setting
        \<and> truthy setting
      \<longrightarrow> getSetting k (run ops (fst (new_UserScriptSettings sk ver w))) =
            Inr (property setting ''value''))"
proof -
  let ?s = "run ops (fst (new_UserScriptSettings sk ver w))"
  have "getSetting k ?s = Inl (NotFoundError k) \<longleftrightarrow>
      (case map_of (settings ?s) k of None \<Rightarrow> True | Some e \<Rightarrow> \<not> truthy e)"
    by (simp add: getSetting_def split: option.splits)
  then show ?thesis
    unfolding run_blocked by (simp add: getSetting_def)
qed

theorem getSetting_not_found_iff_witness:
  "getSetting ''nonexistent'' (run [DefineSetting 10] fresh_store) = Inl (NotFoundError ''nonexistent'') \<and>
   getSetting ''theme'' (run [DefineSetting 10] fresh_store) = Inr (Scalar (JString ''light'')) \<and>
   blocked ''demo-settings'' ''1.0.0'' damaged_page ''theme'' \<and>
   getSetting ''theme'' (run [DefineSetting 10] damaged_store) = Inl (NotFoundError ''theme'')"
proof -
  have a: "defined_keys [DefineSetting 10] fresh_store = {''theme''}"
    by (simp add: fresh_store_eq demo_heap_at demo_validations demo_keys)
  have b: "snapshot_entry ''demo-settings'' ''1.0.0'' fresh_page k = None" for k
    by (simp add: snapshot_entry_def demo_snapshot_entries)
  have b': "\<not> blocked ''demo-settings'' ''1.0.0'' fresh_page k" for k
    by (simp add: blocked_def b)
  have c: "map_of (settings (run [DefineSetting 10] fresh_store)) ''theme'' =
      Some (object_of \<lparr>sv_value = JString ''light'', sv_isDefault = True\<rparr>)"
    by (simp add: demo_theme_defined)
  have d: "blocked ''demo-settings'' ''1.0.0'' damaged_page ''theme''"
    by (simp add: blocked_def snapshot_entry_def demo_snapshot_entries)
  show ?thesis
    using getSetting_not_found_iff [of "''nonexistent''" "[DefineSetting 10]" "''demo-settings''" "''1.0.0''" fresh_page]
      getSetting_not_found_iff [of "''theme''" "[DefineSetting 10]" "''demo-settings''" "''1.0.0''" fresh_page]
      getSetting_not_found_iff [of "''theme''" "[DefineSetting 10]" "''demo-settings''" "''1.0.0''" damaged_page]
      a b b' c d
    unfolding fresh_store_def [symmetric] damaged_store_def [symmetric]
    by simp
qed

text \<open>
  C3 as stated fails for a key that only the persisted snapshot mentions: the script
  defines \<open>theme\<close> and \<open>autoSave\<close>, never \<open>legacy\<close>, and \<open>getSetting('legacy')\<close>
  returns the persisted value instead of failing.
\<close>

theorem getSetting_persisted_key_counterexample:
  "defined_keys [DefineSetting 10, DefineSetting 20] returning_store = {''theme'', ''autoSave''} \<and>
   getSetting ''legacy'' (run [DefineSetting 10, DefineSetting 20] returning_store) =
     Inr (Scalar (JNumber (Finite 7)))"
  by (simp add: returning_store_eq demo_heap_at demo_validations demo_keys defineSetting_def
      getSetting_def insert_commute)

subsection \<open>Version mismatch\<close>

declare new_UserScriptSettings_fields(6) [simp]

lemma new_UserScriptSettings_mismatch:
  assumes "localStorage w sk = Some (ParsesTo data)" and "stored_version data \<noteq> Some (Scalar (JString ver))"
  shows "settings (fst (new_UserScriptSettings sk ver w)) = []"
  using assms
  by (simp add: new_UserScriptSettings_def loadSettings_def load_failed_empty
      resetAllToDefaults_empty split: option.splits)

text \<open>
  C4 (as amended). When the persisted snapshot has a version other than the configured
  one, construction copies no entry of it into the value store. After definitions are
  registered, every key holds the default value of the first accepted definition of that
  key, with \<open>isDefault = true\<close>, and no other key has a value. When the registered
  definitions have pairwise different keys, every defined setting therefore holds the
  default value of its definition.
\<close>

theorem version_mismatch_discards_snapshot:
  assumes "localStorage w sk = Some (ParsesTo data)" and "stored_version data \<noteq> Some (Scalar (JString ver))"
  shows "settings (fst (new_UserScriptSettings sk ver w)) = [] \<and>
         (\<forall>k. map_of (settings (register rs (fst (new_UserScriptSettings sk ver w)))) k =
                map_option (\<lambda>r. object_of \<lparr>sv_value = defaultValue (heap w r), sv_isDefault = True\<rparr>)
                  (first_definition (heap w) rs k)) \<and>
         (distinct (map (\<lambda>r. key (heap w r)) rs) \<longrightarrow>
            (\<forall>k d. map_of (defaultSettings (register rs (fst (new_UserScriptSettings sk ver w)))) k = Some d
               \<longrightarrow> getSetting k (register rs (fst (new_UserScriptSettings sk ver w))) = Inr (Scalar d) \<and>
                   isDefault k (register rs (fst (new_UserScriptSettings sk ver w))) =
                     Scalar (JBoolean True)))"
proof -
  let ?s0 = "fst (new_UserScriptSettings sk ver w)"
  have empty: "settings ?s0 = []"
    using assms by (rule new_UserScriptSettings_mismatch)
  have vals: "map_of (settings (register rs ?s0)) k =
      map_option (\<lambda>r. object_of \<lparr>sv_value = defaultValue (heap w r), sv_isDefault = True\<rparr>)
        (first_definition (heap w) rs k)" for k
    by (simp add: register_settings_lookup empty)
  have "getSetting k (register rs ?s0) = Inr (Scalar d) \<and>
      isDefault k (register rs ?s0) = Scalar (JBoolean True)"
    if dist: "distinct (map (\<lambda>r. key (heap w r)) rs)"
      and d: "map_of (defaultSettings (register rs ?s0)) k = Some d" for k d
  proof -
    from d obtain r where r: "first_definition (heap w) (rev rs) k = Some r"
      and dr: "d = defaultValue (heap w r)"
      by (auto simp: register_defaults_lookup new_UserScriptSettings_fields split: option.splits)
    have "first_definition (heap w) rs k = Some r"
      using dist r by (rule first_definition_distinct)
    then show ?thesis
      by (simp add: getSetting_def isDefault_def vals dr)
  qed
  with empty vals show ?thesis by blast
qed

theorem version_mismatch_discards_snapshot_witness:
  "localStorage returning_page ''demo-settings'' = Some (ParsesTo demo_snapshot) \<and>
   stored_version demo_snapshot \<noteq> Some (Scalar (JString ''2.0.0'')) \<and>
   distinct (map (\<lambda>r. key (heap returning_page r)) [10, 20, 30]) \<and>
   map_of (defaultSettings (register [10, 20, 30] upgraded_store)) ''theme'' = Some (JString ''light'') \<and>
   settings upgraded_store = [] \<and>
   getSetting ''theme'' (register [10, 20, 30] upgraded_store) = Inr (Scalar (JString ''light'')) \<and>
   isDefault ''theme'' (register [10, 20, 30] upgraded_store) = Scalar (JBoolean True)"
proof -
  have a: "localStorage returning_page ''demo-settings'' = Some (ParsesTo demo_snapshot)"
    by (simp add: returning_page_def)
  have b: "stored_version demo_snapshot \<noteq> Some (Scalar (JString ''2.0.0''))"
    by (simp add: demo_snapshot_def stored_version_def get_property_def)
  have h: "heap returning_page = demo_heap"
    by (simp add: returning_page_def fresh_page_def)
  have c: "distinct (map (\<lambda>r. key (heap returning_page r)) [10, 20, 30])"
    by (simp add: h demo_heap_at demo_keys)
  have d: "map_of (defaultSettings (register [10, 20, 30] upgraded_store)) ''theme'' = Some (JString ''light'')"
    by (simp add: register_defaults_lookup first_definition_def upgraded_store_eq demo_heap_at
        demo_validations demo_keys)
  show ?thesis
    using version_mismatch_discards_snapshot [OF a b, of "[10, 20, 30]"] a b c d
    unfolding upgraded_store_def [symmetric]
    by blast
qed

text \<open>
  C4 as stated fails when a key is registered twice: after the version mismatch the script
  registers \<open>theme\<close> with the default \<open>light\<close> and then again with the default
  \<open>dark\<close>. The setting holds \<open>light\<close>, flagged as default, while the default value of
  its definition is \<open>dark\<close>.
\<close>

theorem version_mismatch_reregistration_counterexample:
  "localStorage returning_page ''demo-settings'' = Some (ParsesTo demo_snapshot) \<and>
   stored_version demo_snapshot \<noteq> Some (Scalar (JString ''2.0.0'')) \<and>
   map_of (defaultSettings (register [10, 40] upgraded_store)) ''theme'' = Some (JString ''dark'') \<and>
   getSetting ''theme'' (register [10, 40] upgraded_store) = Inr (Scalar (JString ''light'')) \<and>
   isDefault ''theme'' (register [10, 40] upgraded_store) = Scalar (JBoolean True)"
  by (simp add: returning_page_def demo_snapshot_def register_defaults_lookup
      register_settings_lookup first_definition_def upgraded_store_eq demo_heap_at
      demo_validations demo_keys getSetting_def isDefault_def stored_version_def
      get_property_def)


subsection \<open>Writing a value\<close>














subsection \<open>Reset and round trip\<close>



lemma run_registered:
  "k \<in> defined_keys ops (fst (new_UserScriptSettings sk ver w)) \<Longrightarrow>
     \<exists>d. registered_default ops (fst (new_UserScriptSettings sk ver w)) k = Some d \<and>
         map_of (defaultSettings (run ops (fst (new_UserScriptSettings sk ver w)))) k = Some d"
  "k \<notin> defined_keys ops (fst (new_UserScriptSettings sk ver w)) \<Longrightarrow>
     map_of (defaultSettings (run ops (fst (new_UserScriptSettings sk ver w)))) k = None"
proof -
  let ?init = "fst (new_UserScriptSettings sk ver w)"
  show "\<exists>d. registered_default ops ?init k = Some d \<and> map_of (defaultSettings (run ops ?init)) k = Some d"
    if "k \<in> defined_keys ops ?init"
  proof -
    from that obtain d where "registered_default ops ?init k = Some d"
      using registered_default_defined[of ops ?init k] by auto
    then show ?thesis by (simp add: run_defaults_lookup)
  qed
  show "map_of (defaultSettings (run ops ?init)) k = None" if "k \<notin> defined_keys ops ?init"
  proof -
    from that have "registered_default ops ?init k = None"
      using registered_default_defined[of ops ?init k] by auto
    then show ?thesis by (simp add: run_defaults_lookup new_UserScriptSettings_fields)
  qed
qed





lemma demo_damaged_run:
  "defined_keys [DefineSetting 10] damaged_store = {''theme''}"
  "registered_default [DefineSetting 10] damaged_store ''theme'' = Some (JString ''light'')"
  "blocked ''demo-settings'' ''1.0.0'' damaged_page ''theme''"
  "\<not> blocked ''demo-settings'' ''1.0.0'' fresh_page k"
  "\<not> blocked ''demo-settings'' ''1.0.0'' returning_page k"
  by (simp_all add: blocked_def snapshot_entry_def demo_snapshot_entries)
     (simp_all add: damaged_store_eq demo_heap_at demo_validations demo_keys)







subsection \<open>A failed save\<close>






subsection \<open>The invariant\<close>

text \<open>
  C10 (as amended). Construction returns normally, with or without a persisted
  snapshot, readable or not. In every state that a run of the public operations (and of
  the caller's writes to shared objects) reaches from construction, the keys of the
  defaults map are the keys defined in the run, and each of them has an entry in the
  value store. \<open>resetToDefault\<close> on such a key reaches the not-found branch of
  \<open>setSetting\<close> exactly when the snapshot copied at construction holds a falsy value
  for the key, and \<open>resetAllToDefaults\<close> reaches it only at such a key.
\<close>

theorem defined_keys_always_have_values:
  "snd (new_UserScriptSettings sk ver w) = None \<and>
   fst ` set (defaultSettings (run ops (fst (new_UserScriptSettings sk ver w)))) =
     defined_keys ops (fst (new_UserScriptSettings sk ver w)) \<and>
   fst ` set (defaultSettings (run ops (fst (new_UserScriptSettings sk ver w)))) \<subseteq>
     fst ` set (settings (run ops (fst (new_UserScriptSettings sk ver w)))) \<and>
   (\<forall>k \<in> fst ` set (defaultSettings (run ops (fst (new_UserScriptSettings sk ver w)))).
      \<forall>k'. snd (resetToDefault k (run ops (fst (new_UserScriptSettings sk ver w)))) =
              Some (NotFoundError k') \<longleftrightarrow> k' = k \<and> blocked sk ver w k) \<and>
   (\<forall>k'. snd (resetAllToDefaults (run ops (fst (new_UserScriptSettings sk ver w)))) =
            Some (NotFoundError k') \<longrightarrow>
          k' \<in> fst ` set (defaultSettings (run ops (fst (new_UserScriptSettings sk ver w)))) \<and>
          blocked sk ver w k')"
proof -
  let ?init = "fst (new_UserScriptSettings sk ver w)"
  let ?s = "run ops ?init"
  have inv: "store_inv ?s"
    by (rule run_store_inv) (rule new_UserScriptSettings_inv)
  have keys: "fst ` set (defaultSettings ?s) = defined_keys ops ?init"
    using run_dom_defaults[of ops ?init]
    by (simp add: dom_map_of_conv_image_fst new_UserScriptSettings_fields)
  have entry: "(case map_of (settings ?s) k of None \<Rightarrow> True | Some e \<Rightarrow> \<not> truthy e) \<longleftrightarrow>
      blocked sk ver w k" if "k \<in> defined_keys ops ?init" for k
    using that run_blocked[of ops sk ver w k] by simp
  have one: "snd (resetToDefault k ?s) = Some (NotFoundError k') \<longleftrightarrow> k' = k \<and> blocked sk ver w k"
    if k: "k \<in> fst ` set (defaultSettings ?s)" for k k'
  proof -
    from k have def: "k \<in> defined_keys ops ?init" by (simp add: keys)
    then obtain d where d: "map_of (defaultSettings ?s) k = Some d"
      using run_registered(1)[of k ops sk ver w] by blast
    have "resetToDefault k ?s = setSetting k d ?s"
      by (simp add: resetToDefault_def d)
    then show ?thesis
      by (simp add: setSetting_not_found_iff entry[OF def])
  qed
  have all: "k' \<in> fst ` set (defaultSettings ?s) \<and> blocked sk ver w k'"
    if e: "snd (resetAllToDefaults ?s) = Some (NotFoundError k')" for k'
  proof -
    from e have m: "k' \<in> fst ` set (defaultSettings ?s)"
      and c: "case map_of (settings ?s) k' of None \<Rightarrow> True | Some old \<Rightarrow> \<not> truthy old"
      using forEach_setSetting_not_found[of "defaultSettings ?s" ?s k']
      by (simp_all add: resetAllToDefaults_def)
    from m have "k' \<in> defined_keys ops ?init" by (simp add: keys)
    with c have "blocked sk ver w k'" by (simp add: entry)
    with m show ?thesis by simp
  qed
  have sub: "fst ` set (defaultSettings ?s) \<subseteq> fst ` set (settings ?s)"
    using inv by (simp add: store_inv_def)
  have ret: "snd (new_UserScriptSettings sk ver w) = None"
    by (rule new_UserScriptSettings_returns)
  from ret keys sub one all show ?thesis by blast
qed

lemma demo_returning_run:
  "defaultSettings (run [DefineSetting 10, SetSetting ''theme'' (JString ''system''), ResetAllToDefaults]
     returning_store) = [(''theme'', JString ''light'')]"
  "defaultSettings (run [DefineSetting 10] damaged_store) = [(''theme'', JString ''light'')]"
  by (simp_all add: defineSetting_accepted(2) returning_store_eq damaged_store_eq demo_heap_at
      demo_validations demo_keys)

theorem defined_keys_always_have_values_witness:
  "''theme'' \<in> fst ` set (defaultSettings
      (run [DefineSetting 10, SetSetting ''theme'' (JString ''system''), ResetAllToDefaults] returning_store)) \<and>
   ''theme'' \<in> fst ` set (settings
      (run [DefineSetting 10, SetSetting ''theme'' (JString ''system''), ResetAllToDefaults] returning_store)) \<and>
   snd (resetToDefault ''theme''
      (run [DefineSetting 10, SetSetting ''theme'' (JString ''system''), ResetAllToDefaults] returning_store))
     \<noteq> Some (NotFoundError ''theme'') \<and>
   snd (resetAllToDefaults
      (run [DefineSetting 10, SetSetting ''theme'' (JString ''system''), ResetAllToDefaults] returning_store))
     \<noteq> Some (NotFoundError ''theme'') \<and>
   ''theme'' \<in> fst ` set (defaultSettings (run [DefineSetting 10] damaged_store)) \<and>
   ''theme'' \<in> fst ` set (settings (run [DefineSetting 10] damaged_store)) \<and>
   snd (resetToDefault ''theme'' (run [DefineSetting 10] damaged_store)) =
     Some (NotFoundError ''theme'')"
proof -
  let ?ops = "[DefineSetting 10, SetSetting ''theme'' (JString ''system''), ResetAllToDefaults]"
  have a: "''theme'' \<in> fst ` set (defaultSettings (run ?ops returning_store))"
    "''theme'' \<in> fst ` set (defaultSettings (run [DefineSetting 10] damaged_store))"
    unfolding demo_returning_run by simp_all
  note r = defined_keys_always_have_values
    [of "''demo-settings''" "''1.0.0''" returning_page ?ops, unfolded returning_store_def [symmetric]]
  note d = defined_keys_always_have_values
    [of "''demo-settings''" "''1.0.0''" damaged_page "[DefineSetting 10]",
     unfolded damaged_store_def [symmetric]]
  have r1: "''theme'' \<in> fst ` set (settings (run ?ops returning_store))"
    using r [THEN conjunct2, THEN conjunct2, THEN conjunct1] a(1) by (rule subsetD)
  have r2: "snd (resetToDefault ''theme'' (run ?ops returning_store)) \<noteq> Some (NotFoundError ''theme'')"
    using r [THEN conjunct2, THEN conjunct2, THEN conjunct2, THEN conjunct1, THEN bspec, OF a(1),
        THEN spec, of "''theme''"]
    by (simp add: demo_damaged_run)
  have r3: "snd (resetAllToDefaults (run ?ops returning_store)) \<noteq> Some (NotFoundError ''theme'')"
    using r [THEN conjunct2, THEN conjunct2, THEN conjunct2, THEN conjunct2, THEN spec, of "''theme''"]
    by (simp add: demo_damaged_run)
  have d1: "''theme'' \<in> fst ` set (settings (run [DefineSetting 10] damaged_store))"
    using d [THEN conjunct2, THEN conjunct2, THEN conjunct1] a(2) by (rule subsetD)
  have d2: "snd (resetToDefault ''theme'' (run [DefineSetting 10] damaged_store)) =
      Some (NotFoundError ''theme'')"
    using d [THEN conjunct2, THEN conjunct2, THEN conjunct2, THEN conjunct1, THEN bspec, OF a(2),
        THEN spec, of "''theme''"]
    by (simp add: demo_damaged_run)
  show ?thesis
    by (intro conjI a r1 r2 r3 d1 d2)
qed

text \<open>
  C10 as stated fails in its second half: the stored text of the configured version
  holds \<open>null\<close> for \<open>theme\<close>. After construction and the definition of \<open>theme\<close> the
  key is in the defaults map and the value store has an entry for it, yet
  \<open>resetToDefault('theme')\<close> and \<open>resetAllToDefaults()\<close> both end in the not-found
  branch of \<open>setSetting\<close>.
\<close>

theorem reset_reaches_not_found_counterexample:
  "map_of (defaultSettings (run [DefineSetting 10] damaged_store)) ''theme'' = Some (JString ''light'') \<and>
   map_of (settings (run [DefineSetting 10] damaged_store)) ''theme'' = Some Null \<and>
   snd (resetToDefault ''theme'' (run [DefineSetting 10] damaged_store)) =
     Some (NotFoundError ''theme'') \<and>
   snd (resetAllToDefaults (run [DefineSetting 10] damaged_store)) =
     Some (NotFoundError ''theme'')"
  by (simp add: damaged_store_eq demo_heap_at demo_validations demo_keys defineSetting_def
      resetToDefault_def resetAllToDefaults_def setSetting_def)

subsection \<open>Objects shared with the caller\<close>

lemma defineSetting_definitions_lookup:
  "map_of (settingDefinitions (fst (defineSetting r s))) k =
     (if validateSettingDefinition (heap s r) = None \<and> key (heap s r) = k
      then Some r else map_of (settingDefinitions s) k)"
proof (cases "validateSettingDefinition (heap s r)")
  case None
  then show ?thesis by (auto simp: defineSetting_accepted(3) update_conv')
next
  case (Some e)
  then show ?thesis by (simp add: defineSetting_rejected)
qed

lemma run_definitions_lookup:
  "map_of (settingDefinitions (run ops s)) k =
     (case registered_definition ops s k of
        Some a \<Rightarrow> Some a
      | None \<Rightarrow> map_of (settingDefinitions s) k)"
proof (induction ops arbitrary: s)
  case Nil
  show ?case by simp
next
  case (Cons op ops)
  show ?case
    by (cases op)
       (simp_all add: Cons.IH defineSetting_definitions_lookup split: option.splits)
qed

lemma forEach_callback_env:
  "forEach_callback cbs v old (s\<lparr>heap := h, records := rc, next_record := n\<rparr>) =
     ((fst (forEach_callback cbs v old s))\<lparr>heap := h, records := rc, next_record := n\<rparr>,
      snd (forEach_callback cbs v old s))"
proof (induction cbs arbitrary: s)
  case Nil
  show ?case by simp
next
  case (Cons cb cbs)
  have a: "s\<lparr>heap := h, records := rc, next_record := n, trace := t\<rparr> =
      (s\<lparr>trace := t\<rparr>)\<lparr>heap := h, records := rc, next_record := n\<rparr>" for t
    by simp
  show ?case
    by (simp add: Let_def) (simp add: a Cons.IH)
qed

lemma saveSettings_env:
  "saveSettings (s\<lparr>heap := h, records := rc, next_record := n\<rparr>) =
     (saveSettings s)\<lparr>heap := h, records := rc, next_record := n\<rparr>"
  by (simp add: saveSettings_def Let_def)

lemma setSetting_env:
  "setSetting k v (s\<lparr>heap := h, records := rc, next_record := n\<rparr>) =
     ((fst (setSetting k v s))\<lparr>heap := h, records := rc, next_record := n\<rparr>, snd (setSetting k v s))"
proof -
  have a: "s\<lparr>heap := h, records := rc, next_record := n,
        settings := x\<rparr> = (s\<lparr>settings := x\<rparr>)\<lparr>heap := h, records := rc, next_record := n\<rparr>" for x
    by simp
  show ?thesis
    unfolding setSetting_def
    by (simp add: Let_def a saveSettings_env forEach_callback_env split: option.splits
        del: JSON_stringify.simps)
qed

lemma forEach_setSetting_env:
  "forEach_setSetting xs (s\<lparr>heap := h, records := rc, next_record := n\<rparr>) =
     ((fst (forEach_setSetting xs s))\<lparr>heap := h, records := rc, next_record := n\<rparr>,
      snd (forEach_setSetting xs s))"
proof (induction xs arbitrary: s)
  case Nil
  show ?case by simp
next
  case (Cons x xs)
  obtain k dflt where x: "x = (k, dflt)" by (cases x)
  show ?case by (simp add: x setSetting_env Cons.IH)
qed

lemma resetToDefault_env:
  "resetToDefault k (s\<lparr>heap := h, records := rc, next_record := n\<rparr>) =
     ((fst (resetToDefault k s))\<lparr>heap := h, records := rc, next_record := n\<rparr>,
      snd (resetToDefault k s))"
  by (simp add: resetToDefault_def setSetting_env split: option.splits)

lemma resetAllToDefaults_env:
  "resetAllToDefaults (s\<lparr>heap := h, records := rc, next_record := n\<rparr>) =
     ((fst (resetAllToDefaults s))\<lparr>heap := h, records := rc, next_record := n\<rparr>,
      snd (resetAllToDefaults s))"
  by (simp add: resetAllToDefaults_def forEach_setSetting_env)

lemma subscriptions_env:
  "onSettingChange k cb (s\<lparr>heap := h, records := rc, next_record := n\<rparr>) =
     (onSettingChange k cb s)\<lparr>heap := h, records := rc, next_record := n\<rparr>"
  "removeSettingChangeListener k cb (s\<lparr>heap := h, records := rc, next_record := n\<rparr>) =
     (removeSettingChangeListener k cb s)\<lparr>heap := h, records := rc, next_record := n\<rparr>"
  by (simp_all add: onSettingChange_def removeSettingChangeListener_def Let_def split: option.splits)

lemma defineSetting_records:
  "defineSetting r (s\<lparr>records := rc, next_record := n\<rparr>) =
     ((fst (defineSetting r s))\<lparr>records := rc, next_record := n\<rparr>, snd (defineSetting r s))"
  by (simp add: defineSetting_def Let_def split: option.splits)

lemma store_methods_records:
  "setSetting k v (s\<lparr>records := rc, next_record := n\<rparr>) =
     ((fst (setSetting k v s))\<lparr>records := rc, next_record := n\<rparr>, snd (setSetting k v s))"
  "resetToDefault k (s\<lparr>records := rc, next_record := n\<rparr>) =
     ((fst (resetToDefault k s))\<lparr>records := rc, next_record := n\<rparr>, snd (resetToDefault k s))"
  "resetAllToDefaults (s\<lparr>records := rc, next_record := n\<rparr>) =
     ((fst (resetAllToDefaults s))\<lparr>records := rc, next_record := n\<rparr>, snd (resetAllToDefaults s))"
  "onSettingChange k cb (s\<lparr>records := rc, next_record := n\<rparr>) =
     (onSettingChange k cb s)\<lparr>records := rc, next_record := n\<rparr>"
  "removeSettingChangeListener k cb (s\<lparr>records := rc, next_record := n\<rparr>) =
     (removeSettingChangeListener k cb s)\<lparr>records := rc, next_record := n\<rparr>"
  using setSetting_env[where s = s and h = "heap s"] resetToDefault_env[where s = s and h = "heap s"]
    resetAllToDefaults_env[where s = s and h = "heap s"] subscriptions_env[where s = s and h = "heap s"]
  by simp_all

lemma store_methods_heap:
  "setSetting k v (s\<lparr>heap := h\<rparr>) =
     ((fst (setSetting k v s))\<lparr>heap := h\<rparr>, snd (setSetting k v s))"
  "resetToDefault k (s\<lparr>heap := h\<rparr>) =
     ((fst (resetToDefault k s))\<lparr>heap := h\<rparr>, snd (resetToDefault k s))"
  "resetAllToDefaults (s\<lparr>heap := h\<rparr>) =
     ((fst (resetAllToDefaults s))\<lparr>heap := h\<rparr>, snd (resetAllToDefaults s))"
  using setSetting_env[where s = s and rc = "records s" and n = "next_record s"]
    resetToDefault_env[where s = s and rc = "records s" and n = "next_record s"]
    resetAllToDefaults_env[where s = s and rc = "records s" and n = "next_record s"]
  by simp_all

lemma without_records_idem [simp]:
  "without_records (s\<lparr>records := rc, next_record := n\<rparr>) = without_records s"
  "without_records (s\<lparr>records := rc\<rparr>) = without_records s"
  "without_records (without_records s) = without_records s"
  by (simp_all add: without_records_def)

lemma perform_without_records:
  "without_records (perform op (without_records s)) = without_records (perform op s)"
proof -
  have w': "without_records s =
      s\<lparr>records := (\<lambda>a. \<lparr>prototype = None, own_entries = []\<rparr>), next_record := 0\<rparr>"
    by (simp add: without_records_def)
  show ?thesis
  proof (cases op)
    case (DefineSetting r)
    then show ?thesis by (simp add: w' defineSetting_records)
  next
    case (SetSetting k v)
    then show ?thesis by (simp add: w' store_methods_records)
  next
    case (ResetToDefault k)
    then show ?thesis by (simp add: w' store_methods_records)
  next
    case ResetAllToDefaults
    then show ?thesis by (simp add: w' store_methods_records)
  next
    case (OnSettingChange k cb)
    then show ?thesis by (simp add: w' store_methods_records)
  next
    case (RemoveSettingChangeListener k cb)
    then show ?thesis by (simp add: w' store_methods_records)
  next
    case GetAllSettings
    then show ?thesis by (simp add: getAllSettings_def Let_def without_records_def)
  next
    case (CallerWritesDefinition r def)
    then show ?thesis by (simp add: without_records_def)
  next
    case (CallerWritesRecord a c)
    then show ?thesis by (simp add: without_records_def)
  next
    case (StorageRejectsWrites b)
    then show ?thesis by (simp add: without_records_def)
  qed
qed

lemma run_without_records:
  "without_records (run ops (without_records s)) = without_records (run ops s)"
proof (induction ops arbitrary: s)
  case Nil
  show ?case by simp
next
  case (Cons op ops)
  have "without_records (run ops (perform op (without_records s))) =
        without_records (run ops (without_records (perform op (without_records s))))"
    by (simp add: Cons.IH)
  also have "\<dots> = without_records (run ops (without_records (perform op s)))"
    by (simp add: perform_without_records)
  also have "\<dots> = without_records (run ops (perform op s))"
    by (simp add: Cons.IH)
  finally show ?case by simp
qed

lemma reads_without_records:
  "getSetting k (without_records s) = getSetting k s"
  "isDefault k (without_records s) = isDefault k s"
  "settingDefinitions (without_records s) = settingDefinitions s"
  "heap (without_records s) = heap s"
  by (simp_all add: without_records_def getSetting_def isDefault_def)

lemma perform_next_record: "next_record s \<le> next_record (perform op s)"
  by (cases op) (simp_all add: getAllSettings_def Let_def)

lemma run_next_record: "next_record s \<le> next_record (run ops s)"
proof (induction ops arbitrary: s)
  case Nil
  show ?case by simp
next
  case (Cons op ops)
  have "next_record s \<le> next_record (perform op s)" by (rule perform_next_record)
  also have "\<dots> \<le> next_record (run ops (perform op s))" by (rule Cons.IH)
  finally show ?case by simp
qed

lemma getAllSettings_result:
  "records (fst (getAllSettings s)) (snd (getAllSettings s)) =
     fold assign_entry (settingDefinitions s) \<lparr>prototype = None, own_entries = []\<rparr>"
  "snd (getAllSettings s) = next_record s"
  "next_record (fst (getAllSettings s)) = Suc (next_record s)"
  "a \<noteq> next_record s \<Longrightarrow> records (fst (getAllSettings s)) a = records s a"
  "without_records (fst (getAllSettings s)) = without_records s"
  by (simp_all add: getAllSettings_def Let_def without_records_def)

lemma fold_assign_entry:
  "map_of (own_entries (fold assign_entry xs acc)) =
     map_of (own_entries acc) ++ (map_of (rev xs))(''__proto__'' := None)"
  "prototype (fold assign_entry xs acc) =
     (case map_of (rev xs) ''__proto__'' of None \<Rightarrow> prototype acc | Some r \<Rightarrow> Some r)"
proof (induction xs arbitrary: acc)
  case Nil
  {
    case 1
    show ?case by simp
  next
    case 2
    show ?case by simp
  }
next
  case (Cons x xs)
  {
    case 1
    show ?case
      by (cases x)
         (simp add: Cons.IH(1),
          auto simp: assign_entry_def update_conv' fun_eq_iff map_add_def split: option.splits)
  next
    case 2
    show ?case
      by (cases x)
         (simp add: Cons.IH(2),
          auto simp: assign_entry_def map_add_def split: option.splits)
  }
qed

lemma perform_distinct_definitions:
  "distinct (map fst (settingDefinitions s)) \<Longrightarrow>
   distinct (map fst (settingDefinitions (perform op s)))"
proof (cases op)
  case (DefineSetting r)
  assume d: "distinct (map fst (settingDefinitions s))"
  show ?thesis
  proof (cases "validateSettingDefinition (heap s r)")
    case None
    then show ?thesis using d DefineSetting
      by (simp add: defineSetting_accepted(3) distinct_update)
  next
    case (Some e)
    then show ?thesis using d DefineSetting by (simp add: defineSetting_rejected)
  qed
qed simp_all

lemma run_distinct_definitions:
  "distinct (map fst (settingDefinitions s)) \<Longrightarrow>
   distinct (map fst (settingDefinitions (run ops s)))"
  by (induction ops arbitrary: s) (simp_all add: perform_distinct_definitions)

lemma map_of_rev_distinct: "distinct (map fst xs) \<Longrightarrow> map_of (rev xs) = map_of xs"
proof (induction xs)
  case Nil
  show ?case by simp
next
  case (Cons x xs)
  obtain k v where x: "x = (k, v)" by (cases x)
  have "k \<notin> dom (map_of xs)" using Cons.prems by (simp add: x dom_map_of_conv_image_fst)
  then have "map_of xs k = None" by blast
  then show ?case using Cons
    by (auto simp: x fun_eq_iff map_add_def split: option.splits)
qed

lemma getAllSettings_mapping:
  assumes "distinct (map fst (settingDefinitions s))"
  shows "map_of (own_entries (records (fst (getAllSettings s)) (snd (getAllSettings s)))) =
           (map_of (settingDefinitions s))(''__proto__'' := None)"
    and "prototype (records (fst (getAllSettings s)) (snd (getAllSettings s))) =
           map_of (settingDefinitions s) ''__proto__''"
  using assms
  by (simp_all add: getAllSettings_result(1) fold_assign_entry map_of_rev_distinct
      split: option.splits)


lemma registered_definition_defined:
  "registered_definition ops s k \<noteq> None \<longleftrightarrow> k \<in> defined_keys ops s"
proof (induction ops arbitrary: s)
  case Nil
  show ?case by simp
next
  case (Cons op ops)
  have ih: "registered_definition ops (perform op s) k \<noteq> None \<longleftrightarrow>
      k \<in> defined_keys ops (perform op s)"
    by (rule Cons.IH)
  show ?case using ih
    by (cases op) (auto split: option.splits)
qed

text \<open>
  C9 (as amended). \<open>getAllSettings()\<close> returns a new object: it is none of the objects
  returned before (whatever the store and the caller do between two calls, the later call
  returns another object), the objects returned before stay as they are, and nothing else
  changes. In every state reached from construction the object has, for each defined key
  other than \<open>__proto__\<close>, an own property holding the definition object passed to the
  last successful \<open>defineSetting\<close> for the key: the object itself, not a copy. A
  definition registered under the key \<open>__proto__\<close> is the prototype of the returned
  object and not a property of it. A write to a returned object, whatever is written
  (entries added, removed or replaced), leaves the store and the results of all later
  operations as they would have been: the states of any later run differ only in the
  returned objects, \<open>getSetting\<close> and \<open>isDefault\<close> give the same answers, and a
  later \<open>getAllSettings\<close> shows the same keys and definitions. A write to a definition
  object changes the definition that later \<open>getAllSettings\<close> calls show for the keys
  registered with that object, and nothing else: \<open>getSetting\<close>, \<open>isDefault\<close>,
  \<open>setSetting\<close>, \<open>resetToDefault\<close> and \<open>resetAllToDefaults\<close> behave as without
  the write.
\<close>

theorem getAllSettings_shares_definition_objects:
  "snd (getAllSettings s) = next_record s \<and>
   next_record (fst (getAllSettings s)) = Suc (next_record s) \<and>
   snd (getAllSettings s) < snd (getAllSettings (run ops (fst (getAllSettings s)))) \<and>
   (\<forall>b. b \<noteq> snd (getAllSettings s) \<longrightarrow> records (fst (getAllSettings s)) b = records s b) \<and>
   without_records (fst (getAllSettings s)) = without_records s \<and>
   map_of (own_entries
       (records (fst (getAllSettings (run pre (fst (new_UserScriptSettings sk ver w)))))
          (snd (getAllSettings (run pre (fst (new_UserScriptSettings sk ver w))))))) k =
     (if k = ''__proto__'' then None
      else registered_definition pre (fst (new_UserScriptSettings sk ver w)) k) \<and>
   prototype
       (records (fst (getAllSettings (run pre (fst (new_UserScriptSettings sk ver w)))))
          (snd (getAllSettings (run pre (fst (new_UserScriptSettings sk ver w)))))) =
     registered_definition pre (fst (new_UserScriptSettings sk ver w)) ''__proto__'' \<and>
   (registered_definition pre (fst (new_UserScriptSettings sk ver w)) k \<noteq> None \<longleftrightarrow>
      k \<in> defined_keys pre (fst (new_UserScriptSettings sk ver w))) \<and>
   without_records (run ops (perform (CallerWritesRecord a content) s)) = without_records (run ops s) \<and>
   getSetting k (run ops (perform (CallerWritesRecord a content) s)) = getSetting k (run ops s) \<and>
   isDefault k (run ops (perform (CallerWritesRecord a content) s)) = isDefault k (run ops s) \<and>
   records (fst (getAllSettings (run ops (perform (CallerWritesRecord a content) s))))
       (snd (getAllSettings (run ops (perform (CallerWritesRecord a content) s)))) =
     records (fst (getAllSettings (run ops s))) (snd (getAllSettings (run ops s))) \<and>
   read_record (fst (getAllSettings (run ops (perform (CallerWritesRecord a content) s))))
       (snd (getAllSettings (run ops (perform (CallerWritesRecord a content) s)))) =
     read_record (fst (getAllSettings (run ops s))) (snd (getAllSettings (run ops s))) \<and>
   getSetting k (perform (CallerWritesDefinition r def) s) = getSetting k s \<and>
   isDefault k (perform (CallerWritesDefinition r def) s) = isDefault k s \<and>
   setSetting k v (perform (CallerWritesDefinition r def) s) =
     (perform (CallerWritesDefinition r def) (fst (setSetting k v s)), snd (setSetting k v s)) \<and>
   resetToDefault k (perform (CallerWritesDefinition r def) s) =
     (perform (CallerWritesDefinition r def) (fst (resetToDefault k s)), snd (resetToDefault k s)) \<and>
   resetAllToDefaults (perform (CallerWritesDefinition r def) s) =
     (perform (CallerWritesDefinition r def) (fst (resetAllToDefaults s)), snd (resetAllToDefaults s)) \<and>
   records (fst (getAllSettings (perform (CallerWritesDefinition r def) s)))
       (snd (getAllSettings (perform (CallerWritesDefinition r def) s))) =
     records (fst (getAllSettings s)) (snd (getAllSettings s)) \<and>
   read_record (fst (getAllSettings (perform (CallerWritesDefinition r def) s)))
       (snd (getAllSettings (perform (CallerWritesDefinition r def) s))) =
     map (\<lambda>(k', r'). (k', if r' = r then def else heap s r'))
       (own_entries (records (fst (getAllSettings s)) (snd (getAllSettings s))))"
proof -
  let ?init = "fst (new_UserScriptSettings sk ver w)"
  let ?w = "perform (CallerWritesRecord a content) s"
  let ?d = "perform (CallerWritesDefinition r def) s"
  have alloc: "snd (getAllSettings s) = next_record s"
    "next_record (fst (getAllSettings s)) = Suc (next_record s)"
    "without_records (fst (getAllSettings s)) = without_records s"
    by (rule getAllSettings_result)+
  have "Suc (next_record s) \<le> next_record (run ops (fst (getAllSettings s)))"
    using run_next_record[of "fst (getAllSettings s)" ops] by (simp add: alloc(2))
  then have later: "snd (getAllSettings s) < snd (getAllSettings (run ops (fst (getAllSettings s))))"
    by (simp add: getAllSettings_result(2))
  have others: "\<forall>b. b \<noteq> snd (getAllSettings s) \<longrightarrow> records (fst (getAllSettings s)) b = records s b"
    by (simp add: getAllSettings_result)
  have dist: "distinct (map fst (settingDefinitions (run pre ?init)))"
    by (rule run_distinct_definitions) (simp add: new_UserScriptSettings_fields)
  have defs: "map_of (settingDefinitions (run pre ?init)) k' = registered_definition pre ?init k'" for k'
    by (simp add: run_definitions_lookup new_UserScriptSettings_fields split: option.splits)
  have own: "map_of (own_entries (records (fst (getAllSettings (run pre ?init)))
        (snd (getAllSettings (run pre ?init))))) k =
      (if k = ''__proto__'' then None else registered_definition pre ?init k)"
    by (simp add: getAllSettings_mapping(1)[OF dist] defs)
  have proto: "prototype (records (fst (getAllSettings (run pre ?init)))
        (snd (getAllSettings (run pre ?init)))) = registered_definition pre ?init ''__proto__''"
    by (simp add: getAllSettings_mapping(2)[OF dist] defs)
  have reg: "registered_definition pre ?init k \<noteq> None \<longleftrightarrow> k \<in> defined_keys pre ?init"
    by (rule registered_definition_defined)
  have "without_records ?w = without_records s" by simp
  then have "without_records (run ops (without_records ?w)) = without_records (run ops (without_records s))"
    by simp
  then have same: "without_records (run ops ?w) = without_records (run ops s)"
    by (simp only: run_without_records)
  have gets: "getSetting k (run ops ?w) = getSetting k (run ops s)"
    "isDefault k (run ops ?w) = isDefault k (run ops s)"
    using same reads_without_records(1,2) by metis+
  have sd: "settingDefinitions (run ops ?w) = settingDefinitions (run ops s)"
    "heap (run ops ?w) = heap (run ops s)"
    using same reads_without_records(3,4) by metis+
  have shown: "records (fst (getAllSettings (run ops ?w))) (snd (getAllSettings (run ops ?w))) =
     records (fst (getAllSettings (run ops s))) (snd (getAllSettings (run ops s)))"
    by (simp only: getAllSettings_result(1) sd)
  have shown': "read_record (fst (getAllSettings (run ops ?w))) (snd (getAllSettings (run ops ?w))) =
     read_record (fst (getAllSettings (run ops s))) (snd (getAllSettings (run ops s)))"
    unfolding read_record_def shown by (simp only: getAllSettings_fields sd)
  have dreads: "getSetting k ?d = getSetting k s" "isDefault k ?d = isDefault k s"
    by (simp_all add: getSetting_def isDefault_def)
  have dset: "setSetting k v ?d = (perform (CallerWritesDefinition r def) (fst (setSetting k v s)), snd (setSetting k v s))"
    "resetToDefault k ?d = (perform (CallerWritesDefinition r def) (fst (resetToDefault k s)), snd (resetToDefault k s))"
    "resetAllToDefaults ?d = (perform (CallerWritesDefinition r def) (fst (resetAllToDefaults s)), snd (resetAllToDefaults s))"
    by (simp_all add: store_methods_heap)
  have dsame: "records (fst (getAllSettings ?d)) (snd (getAllSettings ?d)) =
     records (fst (getAllSettings s)) (snd (getAllSettings s))"
    by (simp add: getAllSettings_result(1))
  have dshow: "read_record (fst (getAllSettings ?d)) (snd (getAllSettings ?d)) =
     map (\<lambda>(k', r'). (k', if r' = r then def else heap s r'))
       (own_entries (records (fst (getAllSettings s)) (snd (getAllSettings s))))"
    unfolding read_record_def dsame
    by (simp add: case_prod_beta)
  show ?thesis
    by (intro conjI alloc later others own proto reg same gets shown shown' dreads dset dsame dshow)
qed

lemma demo_registered_definitions:
  "registered_definition [DefineSetting 10] fresh_store ''theme'' = Some 10"
  "registered_definition [DefineSetting 70] fresh_store ''__proto__'' = Some 70"
  "next_record (run [DefineSetting 10] fresh_store) = 0"
  "next_record (run [DefineSetting 70] fresh_store) = 0"
  by (simp_all add: fresh_store_eq demo_heap_at demo_validations demo_keys)

theorem getAllSettings_shares_definition_objects_witness:
  "snd (getAllSettings (run [DefineSetting 10] fresh_store)) = 0 \<and>
   map_of (own_entries (records (fst (getAllSettings (run [DefineSetting 10] fresh_store))) 0))
     ''theme'' = Some 10 \<and>
   0 < snd (getAllSettings (run [SetSetting ''theme'' (JString ''dark'')]
         (fst (getAllSettings (run [DefineSetting 10] fresh_store))))) \<and>
   prototype (records (fst (getAllSettings (run [DefineSetting 70] fresh_store))) 0) = Some 70 \<and>
   map_of (own_entries (records (fst (getAllSettings (run [DefineSetting 70] fresh_store))) 0))
     ''__proto__'' = None \<and>
   getSetting ''theme'' (run [SetSetting ''theme'' (JString ''dark'')]
       (perform (CallerWritesRecord 0 \<lparr>prototype = None, own_entries = []\<rparr>)
          (run [DefineSetting 10] fresh_store))) =
     getSetting ''theme'' (run [SetSetting ''theme'' (JString ''dark'')] (run [DefineSetting 10] fresh_store)) \<and>
   getSetting ''theme''
       (perform (CallerWritesDefinition 10 (theme_definition\<lparr>defaultValue := JString ''dark''\<rparr>))
          (run [DefineSetting 10] fresh_store)) =
     getSetting ''theme'' (run [DefineSetting 10] fresh_store)"
proof -
  let ?s = "run [DefineSetting 10] fresh_store"
  let ?p = "run [DefineSetting 70] fresh_store"
  let ?dark = "theme_definition\<lparr>defaultValue := JString ''dark''\<rparr>"
  note inst = getAllSettings_shares_definition_objects
      [where s = ?s and pre = "[DefineSetting 10]" and sk = "''demo-settings''"
         and ver = "''1.0.0''" and w = fresh_page
         and ops = "[SetSetting ''theme'' (JString ''dark'')]" and a = 0
         and content = "\<lparr>prototype = None, own_entries = []\<rparr>"
         and k = "''theme''" and r = 10 and ?def = ?dark and v = "JString ''dark''",
       unfolded fresh_store_def [symmetric]]
  note inst' = getAllSettings_shares_definition_objects
      [where s = ?p and pre = "[DefineSetting 70]" and sk = "''demo-settings''"
         and ver = "''1.0.0''" and w = fresh_page
         and ops = "[]" and a = 0
         and content = "\<lparr>prototype = None, own_entries = []\<rparr>"
         and k = "''__proto__''" and r = 10 and ?def = ?dark and v = "JString ''dark''",
       unfolded fresh_store_def [symmetric]]
  from inst have a: "snd (getAllSettings ?s) = next_record ?s" by (rule conjunct1)
  from inst' have a': "snd (getAllSettings ?p) = next_record ?p" by (rule conjunct1)
  from inst have l: "snd (getAllSettings ?s) <
      snd (getAllSettings (run [SetSetting ''theme'' (JString ''dark'')] (fst (getAllSettings ?s))))"
    by (rule conjunct2 [THEN conjunct2, THEN conjunct1])
  note rest = inst [THEN conjunct2, THEN conjunct2, THEN conjunct2, THEN conjunct2, THEN conjunct2]
  note rest' = inst' [THEN conjunct2, THEN conjunct2, THEN conjunct2, THEN conjunct2, THEN conjunct2]
  from rest have b: "map_of (own_entries (records (fst (getAllSettings ?s)) (snd (getAllSettings ?s))))
      ''theme'' = (if ''theme'' = ''__proto__'' then None
                   else registered_definition [DefineSetting 10] fresh_store ''theme'')"
    by (rule conjunct1)
  from rest' have b': "map_of (own_entries (records (fst (getAllSettings ?p)) (snd (getAllSettings ?p))))
      ''__proto__'' = (if ''__proto__'' = ''__proto__'' then None
                   else registered_definition [DefineSetting 70] fresh_store ''__proto__'')"
    by (rule conjunct1)
  from rest' have p: "prototype (records (fst (getAllSettings ?p)) (snd (getAllSettings ?p))) =
      registered_definition [DefineSetting 70] fresh_store ''__proto__''"
    by (rule conjunct2 [THEN conjunct1])
  note rest2 = rest [THEN conjunct2, THEN conjunct2, THEN conjunct2, THEN conjunct2]
  from rest2 have c: "getSetting ''theme'' (run [SetSetting ''theme'' (JString ''dark'')]
       (perform (CallerWritesRecord 0 \<lparr>prototype = None, own_entries = []\<rparr>) ?s)) =
     getSetting ''theme'' (run [SetSetting ''theme'' (JString ''dark'')] ?s)"
    by (rule conjunct1)
  from rest2 have d: "getSetting ''theme'' (perform (CallerWritesDefinition 10 ?dark) ?s) =
     getSetting ''theme'' ?s"
    by (rule conjunct2 [THEN conjunct2, THEN conjunct2, THEN conjunct2, THEN conjunct1])
  have n: "snd (getAllSettings ?s) = 0" "snd (getAllSettings ?p) = 0"
    unfolding a a' demo_registered_definitions by simp_all
  have e: "map_of (own_entries (records (fst (getAllSettings ?s)) 0)) ''theme'' = Some 10"
    using b unfolding n demo_registered_definitions by simp
  have e': "map_of (own_entries (records (fst (getAllSettings ?p)) 0)) ''__proto__'' = None"
    using b' unfolding n by simp
  have p': "prototype (records (fst (getAllSettings ?p)) 0) = Some 70"
    using p unfolding n demo_registered_definitions by simp
  have l': "0 < snd (getAllSettings (run [SetSetting ''theme'' (JString ''dark'')]
      (fst (getAllSettings ?s))))"
    using l unfolding n by simp
  show ?thesis
    by (intro conjI n(1) e l' p' e' c d)
qed

text \<open>
  C9 as stated fails for a write to a returned definition object. The script registers
  \<open>theme\<close> and calls \<open>getAllSettings\<close>; the object returned (address 0) maps
  \<open>theme\<close> to address 10, the registered definition object. The script sets the
  default value of that object to \<open>dark\<close>. A later \<open>getAllSettings\<close> shows the
  changed definition: the registry's definition state is not what it was.
\<close>

theorem getAllSettings_aliasing_counterexample:
  "snd (getAllSettings (run [DefineSetting 10] fresh_store)) = 0 \<and>
   own_entries (records (run [DefineSetting 10, GetAllSettings] fresh_store) 0) = [(''theme'', 10)] \<and>
   read_record (run [DefineSetting 10, GetAllSettings] fresh_store) 0 = [(''theme'', theme_definition)] \<and>
   read_record
     (fst (getAllSettings (run [DefineSetting 10, GetAllSettings,
        CallerWritesDefinition 10 (theme_definition\<lparr>defaultValue := JString ''dark''\<rparr>)] fresh_store)))
     (snd (getAllSettings (run [DefineSetting 10, GetAllSettings,
        CallerWritesDefinition 10 (theme_definition\<lparr>defaultValue := JString ''dark''\<rparr>)] fresh_store))) =
     [(''theme'', theme_definition\<lparr>defaultValue := JString ''dark''\<rparr>)] \<and>
   defaultValue (theme_definition\<lparr>defaultValue := JString ''dark''\<rparr>) \<noteq> defaultValue theme_definition"
proof -
  have h: "heap fresh_store = demo_heap" "next_record fresh_store = 0"
    by (simp_all add: fresh_store_eq)
  show ?thesis
    by (simp add: demo_theme_defined h getAllSettings_def read_record_def assign_entry_def Let_def
        demo_heap_at demo_keys)
qed


end
